theory Spec2Isabelle
  imports Main
begin

section \<open>JavaScript helpers used by the sources\<close>

text \<open>
  \<^verbatim>\<open>Array.prototype.join\<close>: the elements separated by \<open>sep\<close>; the empty array gives the
  empty string.
\<close>

fun join_str :: "string \<Rightarrow> string list \<Rightarrow> string" where
  "join_str sep [] = []"
| "join_str sep [x] = x"
| "join_str sep (x # y # ys) = x @ sep @ join_str sep (y # ys)"

text \<open>
  The decimal notation of a natural number and of an integer. It is the text that
  JavaScript gives an integer below \<open>10^21\<close>: here the status of a response and the page
  numbers from 1 to 10 that the search route passes on.
\<close>

function show_nat :: "nat \<Rightarrow> string" where
  "show_nat n =
     (if n < 10 then [''0123456789'' ! n]
      else show_nat (n div 10) @ [''0123456789'' ! (n mod 10)])"
  by pat_completeness auto
termination
  by (relation "measure (\<lambda>n. n)") auto

definition show_int :: "int \<Rightarrow> string" where
  "show_int i = (if i < 0 then CHR ''-'' # show_nat (nat (- i)) else show_nat (nat i))"

definition dq :: char where
  "dq = CHR 0x22"

text \<open>\<open>quoted s\<close> is \<open>s\<close> between two double quotes, as in \<^verbatim>\<open>`"${s}"`\<close>.\<close>

definition quoted :: "string \<Rightarrow> string" where
  "quoted s = dq # s @ [dq]"

section \<open>The rate-limited fetch client (src/unnamed/part_000: services/api/src/scryfall.ts)\<close>

definition REQUEST_DELAY :: int where
  "REQUEST_DELAY = 100"

text \<open>
  What the card API sends back in a response body, as \<^verbatim>\<open>response.json()\<close> reads it:
  an error object (\<^verbatim>\<open>object: "error"\<close>, its \<^verbatim>\<open>code\<close> and optional \<^verbatim>\<open>details\<close>), any
  other JSON value (kept as the payload type \<open>'a\<close>), or text that is not JSON, on which
  \<^verbatim>\<open>response.json()\<close> throws.
\<close>

datatype 'a api_body =
    ErrorObject string "string option"
  | Payload 'a
  | NotJson

record 'a response =
  status :: nat
  statusText :: string
  body :: "'a api_body"

text \<open>\<^verbatim>\<open>response.ok\<close> of the Fetch API: the status is in the range 200 to 299.\<close>

definition ok :: "'a response \<Rightarrow> bool" where
  "ok r = (200 \<le> status r \<and> status r \<le> 299)"

text \<open>
  One exchange with the network: how long \<^verbatim>\<open>fetch\<close> takes to settle (milliseconds) and
  what it settles to, a response or a rejection (a network failure, which \<^verbatim>\<open>fetch\<close>
  throws).
\<close>

datatype 'a settled = Reply "'a response" | NetworkFailure string

record 'a exchange =
  latency :: nat
  settles :: "'a settled"

text \<open>
  A request URL, kept in parts: the address up to the question mark and the query
  parameters as \<^verbatim>\<open>URLSearchParams\<close> holds them, before percent-encoding.
\<close>

type_synonym url = "string \<times> (string \<times> string) list"

text \<open>
  The module-level state and the clock. \<open>lastRequestTime\<close> is the source's variable,
  \<open>clock\<close> is \<^verbatim>\<open>Date.now()\<close>, and \<open>dispatched\<close> records, oldest first, the clock value
  and URL of every call of \<^verbatim>\<open>fetch\<close>: it is the observable behaviour of the client.
\<close>

record client =
  lastRequestTime :: int
  clock :: int
  dispatched :: "(int \<times> url) list"

text \<open>
  The source function is cut at its \<^verbatim>\<open>await\<close>s. \<open>throttle_wait\<close> is the first segment:
  it reads the clock and the shared variable and gives the timer to wait for (0 when the
  source does not wait at all).
\<close>

definition throttle_wait :: "int \<Rightarrow> int \<Rightarrow> int" where
  "throttle_wait now lastTime =
     (let timeSinceLastRequest = now - lastTime
      in if timeSinceLastRequest < REQUEST_DELAY
         then REQUEST_DELAY - timeSinceLastRequest else 0)"

text \<open>
  The second segment runs once the wait is over:
  \<^verbatim>\<open>lastRequestTime = Date.now(); fetch(url, ...)\<close>.
\<close>

definition dispatch :: "url \<Rightarrow> client \<Rightarrow> client" where
  "dispatch url c =
     c\<lparr>lastRequestTime := clock c, dispatched := dispatched c @ [(clock c, url)]\<rparr>"

definition sleep :: "int \<Rightarrow> client \<Rightarrow> client" where
  "sleep ms c = c\<lparr>clock := clock c + ms\<rparr>"

text \<open>How a call of an async function ends: it returns, or it throws an \<^verbatim>\<open>Error\<close>.\<close>

datatype 'a outcome = Returned 'a | Threw string

definition status_error :: "'a response \<Rightarrow> string" where
  "status_error r = ''Scryfall API error: '' @ show_nat (status r) @ '' '' @ statusText r"

text \<open>
  \<open>rateLimitedFetch\<close> for one caller at a time. The network is a script: the exchanges the
  server will give to the successive calls of \<^verbatim>\<open>fetch\<close>. The function returns what is left
  of the script. A timer fires exactly when due. When the script is used up before the
  call has settled, the result is \<open>None\<close>: the call is still pending. The recursion of
  the source on status 429 is the recursive call here; it has no counter in the source
  and has none here.
\<close>

fun rateLimitedFetch ::
  "url \<Rightarrow> 'a exchange list \<Rightarrow> client \<Rightarrow> 'a response outcome option \<times> 'a exchange list \<times> client"
where
  "rateLimitedFetch url [] c =
     (let c1 = sleep (throttle_wait (clock c) (lastRequestTime c)) c;
          c2 = dispatch url c1
      in (None, [], c2))"
| "rateLimitedFetch url (x # script) c =
     (let c1 = sleep (throttle_wait (clock c) (lastRequestTime c)) c;
          c2 = dispatch url c1;
          c3 = sleep (int (latency x)) c2
      in case settles x of
           NetworkFailure msg \<Rightarrow> (Some (Threw msg), script, c3)
         | Reply response \<Rightarrow>
             if \<not> ok response then
               if status response = 429
               then rateLimitedFetch url script (sleep 1000 c3)
               else (Some (Threw (status_error response)), script, c3)
             else (Some (Returned response), script, c3))"

text \<open>
  Several callers in one process. JavaScript runs each segment between two \<^verbatim>\<open>await\<close>s
  to completion, so the process is a sequence of events: a caller enters
  \<open>rateLimitedFetch\<close> at some clock value (\<open>Call\<close>), or the throttle timer of a waiting
  caller fires (\<open>Wake\<close>) and that caller goes on to dispatch. \<open>timers\<close> holds the due
  times of the waiting callers, in the order they started to wait. A \<open>Wake\<close> is for the
  oldest timer and is refused (\<open>None\<close>) when there is none or when it is not yet due; an
  event whose clock value lies before the current clock is refused too.
\<close>

datatype event = Call int url | Wake int

record process =
  shared :: client
  timers :: "(int \<times> url) list"

definition enter :: "int \<Rightarrow> url \<Rightarrow> process \<Rightarrow> process" where
  "enter now url p =
     (let c = (shared p)\<lparr>clock := now\<rparr>;
          w = throttle_wait now (lastRequestTime c)
      in if now - lastRequestTime c < REQUEST_DELAY
         then p\<lparr>shared := c, timers := timers p @ [(now + w, url)]\<rparr>
         else p\<lparr>shared := dispatch url c\<rparr>)"

fun step :: "event \<Rightarrow> process \<Rightarrow> process option" where
  "step (Call now url) p =
     (if now < clock (shared p) then None else Some (enter now url p))"
| "step (Wake now) p =
     (case timers p of
        [] \<Rightarrow> None
      | (due, url) # rest \<Rightarrow>
          if now < due \<or> now < clock (shared p) then None
          else Some (p\<lparr>shared := dispatch url ((shared p)\<lparr>clock := now\<rparr>), timers := rest\<rparr>))"

fun run :: "event list \<Rightarrow> process \<Rightarrow> process option" where
  "run [] p = Some p"
| "run (e # es) p = (case step e p of None \<Rightarrow> None | Some p' \<Rightarrow> run es p')"

text \<open>The clock values of the dispatches, and whether each lies at least \<open>d\<close> after the one before.\<close>

fun spaced :: "int \<Rightarrow> int list \<Rightarrow> bool" where
  "spaced d [] = True"
| "spaced d [t] = True"
| "spaced d (t # u # ts) = (t + d \<le> u \<and> spaced d (u # ts))"

definition dispatch_times :: "client \<Rightarrow> int list" where
  "dispatch_times c = map fst (dispatched c)"

section \<open>The card search gateway (src/unnamed/part_000: class ScryfallService)\<close>

definition SCRYFALL_API_BASE :: string where
  "SCRYFALL_API_BASE = ''https://api.scryfall.com''"

text \<open>
  \<^verbatim>\<open>ScryfallCard\<close> and \<^verbatim>\<open>ScryfallSearchResponse\<close> of packages/shared/src/types.ts. The
  nested JSON objects (image URIs, prices, legalities) are kept as their JSON text.
\<close>

type_synonym json = string

record ScryfallCard =
  card_id :: string
  card_name :: string
  card_mana_cost :: "string option"
  card_cmc :: int
  card_type_line :: string
  card_oracle_text :: "string option"
  card_colors :: "string list"
  card_color_identity :: "string list"
  card_keywords :: "string list option"
  card_power :: "string option"
  card_toughness :: "string option"
  card_image_uris :: "json option"
  card_prices :: json
  card_legalities :: json
  card_set :: string
  card_set_name :: string
  card_rarity :: string

record 'c SearchResponse =
  object_tag :: string
  total_cards :: int
  has_more :: bool
  data :: "'c list"

type_synonym ScryfallSearchResponse = "ScryfallCard SearchResponse"

text \<open>
  The gateway does two things with a number it is given (a page, a bound of a filter):
  it prints it, in a template literal or by \<^verbatim>\<open>toString()\<close>, and it tests it for truthiness.
  Both belong to the language and depend on the number (an integer is printed in
  decimal digits below \<open>10^21\<close> and in exponent notation from there on, a fraction with
  its digits; 0 and \<^verbatim>\<open>NaN\<close> are falsy). So the type \<open>'n\<close> of the numbers and the two
  operations are parameters of the gateway.
\<close>

record 'n numbers =
  render :: "'n \<Rightarrow> string"
  falsy :: "'n \<Rightarrow> bool"

text \<open>
  The instance for the integers that JavaScript prints in decimal digits, those below
  \<open>10^21\<close> in absolute value. The search route uses it for its page numbers.
\<close>

definition decimal :: "int numbers" where
  "decimal = \<lparr>render = show_int, falsy = (\<lambda>n. n = 0)\<rparr>"

record 'n search_options =
  unique :: "string option"
  page :: "'n option"
  include_extras :: "bool option"
  include_multilingual :: "bool option"

definition show_bool :: "bool \<Rightarrow> string" where
  "show_bool b = (if b then ''true'' else ''false'')"

text \<open>
  The query parameters of \<open>searchCards\<close>. \<^verbatim>\<open>options.unique || 'cards'\<close> takes the default for
  a missing or empty value; \<^verbatim>\<open>options.page && {...}\<close> leaves the page out when it is
  missing or falsy.
\<close>

definition search_params ::
  "'n numbers \<Rightarrow> string \<Rightarrow> 'n search_options \<Rightarrow> (string \<times> string) list"
where
  "search_params js query options =
     [(''q'', query),
      (''unique'', (case unique options of
                      Some u \<Rightarrow> if u \<noteq> [] then u else ''cards''
                    | None \<Rightarrow> ''cards''))]
     @ (case page options of
          Some p \<Rightarrow> if \<not> falsy js p then [(''page'', render js p)] else []
        | None \<Rightarrow> [])
     @ (case include_extras options of
          Some b \<Rightarrow> [(''include_extras'', show_bool b)]
        | None \<Rightarrow> [])
     @ (case include_multilingual options of
          Some b \<Rightarrow> [(''include_multilingual'', show_bool b)]
        | None \<Rightarrow> [])"

definition empty_result :: ScryfallSearchResponse where
  "empty_result = \<lparr>object_tag = ''list'', total_cards = 0, has_more = False, data = []\<rparr>"

text \<open>
  What \<open>searchCards\<close> does with the response that \<open>rateLimitedFetch\<close> returned:
  \<^verbatim>\<open>response.json()\<close>, then the test of \<^verbatim>\<open>data.object === 'error'\<close>. The \<^verbatim>\<open>catch\<close> block
  of the source logs and rethrows, so a throw stays a throw.
\<close>

definition read_search_body :: "ScryfallSearchResponse response \<Rightarrow> ScryfallSearchResponse outcome" where
  "read_search_body response =
     (case body response of
        NotJson \<Rightarrow> Threw ''SyntaxError''
      | ErrorObject code details \<Rightarrow>
          if code = ''not_found'' then Returned empty_result
          else Threw (case details of
                        Some d \<Rightarrow> if d \<noteq> [] then d else ''Unknown Scryfall error''
                      | None \<Rightarrow> ''Unknown Scryfall error'')
      | Payload d \<Rightarrow> Returned d)"

definition searchCards ::
  "'n numbers \<Rightarrow> string \<Rightarrow> 'n search_options \<Rightarrow> ScryfallSearchResponse exchange list \<Rightarrow>
   client \<Rightarrow>
   ScryfallSearchResponse outcome option \<times> ScryfallSearchResponse exchange list \<times> client"
where
  "searchCards js query options script c =
     (let url = (SCRYFALL_API_BASE @ ''/cards/search'', search_params js query options)
      in case rateLimitedFetch url script c of
           (None, script', c') \<Rightarrow> (None, script', c')
         | (Some (Threw e), script', c') \<Rightarrow> (Some (Threw e), script', c')
         | (Some (Returned response), script', c') \<Rightarrow>
             (Some (read_search_body response), script', c'))"

text \<open>The filter object of \<open>advancedSearch\<close>; every field is optional in the source.\<close>

record 'n range =
  range_min :: "'n option"
  range_max :: "'n option"

record 'n filters =
  f_name :: "string option"
  f_colors :: "string list option"
  f_colorIdentity :: "string list option"
  f_types :: "string list option"
  f_text :: "string option"
  f_manaValue :: "'n range option"
  f_power :: "'n range option"
  f_toughness :: "'n range option"
  f_sets :: "string list option"
  f_rarity :: "string list option"
  f_format :: "string option"
  f_banned :: "bool option"
  f_legal :: "bool option"

text \<open>
  The blocks of \<open>advancedSearch\<close> that push onto \<^verbatim>\<open>queryParts\<close>, one function per shape of
  block, each giving the pushed parts (none or one).
\<close>

definition text_part :: "string \<Rightarrow> string option \<Rightarrow> string list" where
  "text_part key v =
     (case v of
        Some s \<Rightarrow> if s \<noteq> [] then [key @ quoted s] else []
      | None \<Rightarrow> [])"

definition letters_part :: "string \<Rightarrow> string list option \<Rightarrow> string list" where
  "letters_part key v =
     (case v of
        Some xs \<Rightarrow> if length xs > 0 then [key @ concat xs] else []
      | None \<Rightarrow> [])"

definition or_part :: "string \<Rightarrow> string list option \<Rightarrow> string list" where
  "or_part key v =
     (case v of
        Some xs \<Rightarrow>
          if length xs > 0
          then [''('' @ join_str '' OR '' (map (\<lambda>x. key @ quoted x) xs) @ '')'']
          else []
      | None \<Rightarrow> [])"

definition bound_part ::
  "'n numbers \<Rightarrow> string \<Rightarrow> 'n range option \<Rightarrow> ('n range \<Rightarrow> 'n option) \<Rightarrow> string list"
where
  "bound_part js key r sel =
     (case r of
        None \<Rightarrow> []
      | Some rg \<Rightarrow> (case sel rg of None \<Rightarrow> [] | Some n \<Rightarrow> [key @ render js n]))"

definition format_part :: "'n filters \<Rightarrow> string list" where
  "format_part f =
     (case f_format f of
        None \<Rightarrow> []
      | Some fmt \<Rightarrow>
          if fmt \<noteq> [] then
            if f_legal f = Some True then [''f:'' @ fmt]
            else if f_banned f = Some True then [''banned:'' @ fmt]
            else []
          else [])"

definition queryParts :: "'n numbers \<Rightarrow> 'n filters \<Rightarrow> string list" where
  "queryParts js f =
     text_part ''name:'' (f_name f)
     @ letters_part ''c:'' (f_colors f)
     @ letters_part ''id:'' (f_colorIdentity f)
     @ or_part ''t:'' (f_types f)
     @ text_part ''o:'' (f_text f)
     @ bound_part js ''cmc>='' (f_manaValue f) range_min
     @ bound_part js ''cmc<='' (f_manaValue f) range_max
     @ bound_part js ''pow>='' (f_power f) range_min
     @ bound_part js ''pow<='' (f_power f) range_max
     @ bound_part js ''tou>='' (f_toughness f) range_min
     @ bound_part js ''tou<='' (f_toughness f) range_max
     @ or_part ''s:'' (f_sets f)
     @ or_part ''r:'' (f_rarity f)
     @ format_part f"

definition compiled_query :: "'n numbers \<Rightarrow> 'n filters \<Rightarrow> string" where
  "compiled_query js f = join_str '' '' (queryParts js f)"

record 'n advanced_options =
  adv_page :: "'n option"
  adv_unique :: "string option"
  adv_sort :: "string option"
  adv_direction :: "string option"

definition advancedSearch ::
  "'n numbers \<Rightarrow> 'n filters \<Rightarrow> 'n advanced_options \<Rightarrow> ScryfallSearchResponse exchange list \<Rightarrow>
   client \<Rightarrow>
   ScryfallSearchResponse outcome option \<times> ScryfallSearchResponse exchange list \<times> client"
where
  "advancedSearch js f options script c =
     searchCards js (compiled_query js f)
       \<lparr>unique = adv_unique options, page = adv_page options,
        include_extras = None, include_multilingual = None\<rparr> script c"

section \<open>The store (packages/database/src/client.ts: the database helpers)\<close>

text \<open>\<^verbatim>\<open>CardCache\<close> and \<^verbatim>\<open>CollectionCard\<close> of packages/shared/src/types.ts: the rows of the two tables.\<close>

record CardCache =
  scryfall_id :: string
  name :: string
  mana_cost :: "string option"
  cmc :: int
  type_line :: string
  oracle_text :: "string option"
  colors :: "string list"
  color_identity :: "string list"
  keyword_list :: "string list option"
  power_text :: "string option"
  toughness :: "string option"
  image_uris :: "json option"
  local_image_url :: "string option"
  prices :: "json option"
  legalities :: "json option"
  set_code :: string
  rarity :: string
  created_at :: string
  updated_at :: string

record CollectionCard =
  entry_id :: string
  user_id :: string
  entry_scryfall_id :: string
  quantity :: int
  condition :: string
  foil :: bool
  entry_notes :: "string option"
  added_at :: string
  entry_updated_at :: string

text \<open>\<^verbatim>\<open>CardSearchResult\<close>: a cache row with the two ownership fields.\<close>

record CardSearchResult = CardCache +
  in_collection :: bool
  collection_quantity :: int

text \<open>
  The operations the routes send to the store. The store is a hosted service, so each
  of them can fail; \<open>db_error\<close> says which do and with what message.
\<close>

datatype db_op =
    SelectCache string
  | UpsertCache string
  | SelectOwned string
  | SelectCardExists string
  | SelectExisting
  | UpdateCollection string
  | InsertCollection
  | SelectCollection
  | CountCollection

record db =
  cards_cache :: "CardCache list"
  collection_cards :: "CollectionCard list"
  db_error :: "db_op \<Rightarrow> string option"
  db_now :: string
  fresh_id :: string
  service_role_key :: bool

text \<open>The \<^verbatim>\<open>{ data, error }\<close> pair that a query resolves to: one of the two is null.\<close>

datatype 'a result = Data 'a | Error string

definition exec :: "db \<Rightarrow> db_op \<Rightarrow> 'a result \<Rightarrow> 'a result" where
  "exec d op r = (case db_error d op of Some msg \<Rightarrow> Error msg | None \<Rightarrow> r)"

text \<open>\<^verbatim>\<open>.single()\<close>: the row when the query gives exactly one, an error otherwise.\<close>

fun single :: "'a list \<Rightarrow> 'a result" where
  "single [r] = Data r"
| "single rs = Error ''JSON object requested, multiple (or no) rows returned''"

text \<open>The \<^verbatim>\<open>data\<close> of a result when the error is not looked at.\<close>

fun data_of :: "'a result \<Rightarrow> 'a option" where
  "data_of (Data x) = Some x"
| "data_of (Error msg) = None"

definition withErrorHandling :: "'a result \<Rightarrow> 'a outcome" where
  "withErrorHandling r =
     (case r of
        Error msg \<Rightarrow> Threw (if msg \<noteq> [] then msg else ''Database operation failed'')
      | Data x \<Rightarrow> Returned x)"

definition getCardFromCache :: "db \<Rightarrow> string \<Rightarrow> CardCache outcome" where
  "getCardFromCache d scryfallId =
     withErrorHandling
       (exec d (SelectCache scryfallId)
          (single (filter (\<lambda>r. scryfall_id r = scryfallId) (cards_cache d))))"

text \<open>
  The columns that \<open>insertCardToCache\<close> and the fallback of the search route copy from
  the card of the external API. The three remaining columns are given by the caller.
\<close>

definition card_columns :: "ScryfallCard \<Rightarrow> string option \<Rightarrow> string \<Rightarrow> string \<Rightarrow> CardCache" where
  "card_columns sfc img created updated =
     \<lparr>scryfall_id = card_id sfc, name = card_name sfc, mana_cost = card_mana_cost sfc,
      cmc = card_cmc sfc, type_line = card_type_line sfc,
      oracle_text = card_oracle_text sfc, colors = card_colors sfc,
      color_identity = card_color_identity sfc, keyword_list = card_keywords sfc,
      power_text = card_power sfc, toughness = card_toughness sfc,
      image_uris = card_image_uris sfc, local_image_url = img,
      prices = Some (card_prices sfc), legalities = Some (card_legalities sfc),
      set_code = card_set sfc, rarity = card_rarity sfc,
      created_at = created, updated_at = updated\<rparr>"

text \<open>
  Modelled from the spec: the schema of the cache table is not in the source; the spec
  keys the table by the external identifier. So \<^verbatim>\<open>upsert\<close> gives a row with the same
  identifier the listed columns and leaves its other columns; without such a row a new
  one is added, its other columns at their defaults. The result lists the rows written.
\<close>

definition upsert_cache :: "ScryfallCard \<Rightarrow> string \<Rightarrow> CardCache list \<Rightarrow> CardCache list \<times> CardCache list" where
  "upsert_cache sfc now rows =
     (let write = (\<lambda>r. card_columns sfc (local_image_url r) (created_at r) (updated_at r));
          hit = (\<lambda>r. scryfall_id r = card_id sfc)
      in if list_ex hit rows
         then (map (\<lambda>r. if hit r then write r else r) rows, map write (filter hit rows))
         else (rows @ [card_columns sfc None now now], [card_columns sfc None now now]))"

definition insertCardToCache :: "db \<Rightarrow> ScryfallCard \<Rightarrow> CardCache outcome \<times> db" where
  "insertCardToCache d sfc =
     (case db_error d (UpsertCache (card_id sfc)) of
        Some msg \<Rightarrow> (withErrorHandling (Error msg), d)
      | None \<Rightarrow>
          (let (rows, written) = upsert_cache sfc (db_now d) (cards_cache d)
           in (withErrorHandling (single written), d\<lparr>cards_cache := rows\<rparr>)))"

text \<open>
  Modelled from the spec: the row-level policy of the collection table is not in the
  source. The spec says that the store has row-level auth and that a collection entry is
  exclusively owned by its user, so a client that carries the session of user \<open>uid\<close> sees
  and writes the rows of \<open>uid\<close> only.
\<close>

definition visible :: "string \<Rightarrow> CollectionCard \<Rightarrow> bool" where
  "visible uid r = (user_id r = uid)"

section \<open>Inbound requests: sessions, validation, responses\<close>

text \<open>What \<^verbatim>\<open>supabase.auth.getUser()\<close> resolves to.\<close>

datatype auth = User string | NoUser | AuthError string

fun session_user :: "auth \<Rightarrow> string option" where
  "session_user (User uid) = Some uid"
| "session_user NoUser = None"
| "session_user (AuthError msg) = None"

text \<open>A number as JavaScript parses it from text: \<^verbatim>\<open>parseInt\<close> gives an integer or \<^verbatim>\<open>NaN\<close>.\<close>

datatype number = NaN | Num int

text \<open>
  One issue of a \<^verbatim>\<open>ZodError\<close>: its path (the key of the field, then the index of the
  element for an issue inside an array; empty for the whole input) and its code.
\<close>

datatype segment = Key string | Index nat

datatype issue = Issue "segment list" string

text \<open>The issue of a field that is checked as a whole, and the issues of a field that brings its own.\<close>

definition issues_of :: "string \<Rightarrow> string + 'a \<Rightarrow> issue list" where
  "issues_of field r = (case r of Inl code \<Rightarrow> [Issue [Key field] code] | Inr v \<Rightarrow> [])"

definition own_issues :: "issue list + 'a \<Rightarrow> issue list" where
  "own_issues r = (case r of Inl issues \<Rightarrow> issues | Inr v \<Rightarrow> [])"

text \<open>
  The JSON body of a route's response and its HTTP status. \<^verbatim>\<open>NextResponse.json(x)\<close>
  without a status has status 200.
\<close>

datatype 'a reply =
    Success 'a
  | Failure string
  | Invalid string "issue list"

record 'a http =
  http_status :: nat
  http_json :: "'a reply"

definition json_response :: "'a reply \<Rightarrow> nat \<Rightarrow> 'a http" where
  "json_response b st = \<lparr>http_status = st, http_json = b\<rparr>"

text \<open>
  The \<^verbatim>\<open>catch\<close> block that the three routes share, up to the text of the first message: a
  \<^verbatim>\<open>ZodError\<close> gives 400 with the issues, anything else 500.
\<close>

datatype thrown = ZodError "issue list" | OtherError string

definition caught :: "string \<Rightarrow> thrown \<Rightarrow> 'a http" where
  "caught invalid_message e =
     (case e of
        ZodError issues \<Rightarrow> json_response (Invalid invalid_message issues) 400
      | OtherError msg \<Rightarrow> json_response (Failure ''Internal server error'') 500)"

definition unauthorized :: "'a http" where
  "unauthorized = json_response (Failure ''Unauthorized'') 401"

section \<open>The cards search route (packages/database/src/client.ts: the first GET)\<close>

text \<open>
  The \<^verbatim>\<open>params\<close> object that the route builds from the URL. \<^verbatim>\<open>searchParams.get\<close> gives
  \<^verbatim>\<open>null\<close> for a parameter that is absent, so \<open>None\<close> in \<open>req_q\<close> and \<open>req_unique\<close> is
  \<^verbatim>\<open>null\<close>; \<open>None\<close> in \<open>req_page\<close> is \<^verbatim>\<open>undefined\<close>.
\<close>

record search_request =
  req_q :: "string option"
  req_page :: "number option"
  req_unique :: "string option"

record validated_search =
  v_q :: string
  v_page :: "int option"
  v_unique :: "string option"

text \<open>
  \<^verbatim>\<open>SearchCardsSchema\<close>, field by field. An optional field of a schema accepts \<^verbatim>\<open>undefined\<close>
  and not \<^verbatim>\<open>null\<close>.
\<close>

definition check_q :: "string option \<Rightarrow> string + string" where
  "check_q v =
     (case v of
        None \<Rightarrow> Inl ''invalid_type''
      | Some s \<Rightarrow>
          if length s < 1 then Inl ''too_small''
          else if length s > 100 then Inl ''too_big''
          else Inr s)"

definition check_search_page :: "number option \<Rightarrow> string + int option" where
  "check_search_page v =
     (case v of
        None \<Rightarrow> Inr None
      | Some NaN \<Rightarrow> Inl ''invalid_type''
      | Some (Num n) \<Rightarrow>
          if n < 1 then Inl ''too_small''
          else if n > 10 then Inl ''too_big''
          else Inr (Some n))"

definition check_unique :: "string option \<Rightarrow> string + string option" where
  "check_unique v =
     (case v of
        None \<Rightarrow> Inl ''invalid_type''
      | Some u \<Rightarrow>
          if u \<in> set [''cards'', ''art'', ''prints''] then Inr (Some u)
          else Inl ''invalid_enum_value'')"

definition SearchCardsSchema_parse :: "search_request \<Rightarrow> issue list + validated_search" where
  "SearchCardsSchema_parse r =
     (case (check_q (req_q r), check_search_page (req_page r), check_unique (req_unique r)) of
        (Inr q, Inr p, Inr u) \<Rightarrow> Inr \<lparr>v_q = q, v_page = p, v_unique = u\<rparr>
      | (a, b, c) \<Rightarrow> Inl (issues_of ''q'' a @ issues_of ''page'' b @ issues_of ''unique'' c))"

text \<open>
  The ownership query of the route, through the client that carries the user's session:
  \<^verbatim>\<open>from('collection_cards').select('quantity').eq('scryfall_id', card.id).single()\<close>.
  The route reads \<^verbatim>\<open>data\<close> only.
\<close>

definition owned_quantity :: "db \<Rightarrow> string \<Rightarrow> string \<Rightarrow> int option" where
  "owned_quantity d uid sid =
     data_of (exec d (SelectOwned sid)
       (single (map quantity
          (filter (\<lambda>r. entry_scryfall_id r = sid) (filter (visible uid) (collection_cards d))))))"

text \<open>The record of the inner \<^verbatim>\<open>catch\<close> block: the card's own data, not owned.\<close>

definition fallback :: "ScryfallCard \<Rightarrow> string \<Rightarrow> CardSearchResult" where
  "fallback sfc now =
     CardCache.extend (card_columns sfc None now now) (CardSearchResult.fields False 0)"

text \<open>
  The callback of \<^verbatim>\<open>searchResult.data.map\<close> for one card. \<open>now\<close> is the text of
  \<^verbatim>\<open>new Date().toISOString()\<close>.
\<close>

definition enrich :: "string \<Rightarrow> string \<Rightarrow> ScryfallCard \<Rightarrow> db \<Rightarrow> CardSearchResult \<times> db" where
  "enrich uid now sfc d =
     (let (cached, d1) =
            (case getCardFromCache d (card_id sfc) of
               Returned r \<Rightarrow> (Returned r, d)
             | Threw e \<Rightarrow> insertCardToCache d sfc)
      in case cached of
           Threw e \<Rightarrow> (fallback sfc now, d1)
         | Returned cachedCard \<Rightarrow>
             (let collectionCard = owned_quantity d1 uid (card_id sfc)
              in (CardCache.extend cachedCard
                    (CardSearchResult.fields (collectionCard \<noteq> None)
                       (case collectionCard of
                          Some q \<Rightarrow> if q \<noteq> 0 then q else 0
                        | None \<Rightarrow> 0)),
                  d1)))"

text \<open>
  \<^verbatim>\<open>Promise.all(searchResult.data.map(...))\<close>: one result per card, in the order of the
  cards. The callbacks only meet in the cache table; here they run one after the other,
  in the order of the cards.
\<close>

fun enrich_all :: "string \<Rightarrow> string \<Rightarrow> ScryfallCard list \<Rightarrow> db \<Rightarrow> CardSearchResult list \<times> db" where
  "enrich_all uid now [] d = ([], d)"
| "enrich_all uid now (sfc # rest) d =
     (let (r, d1) = enrich uid now sfc d;
          (rs, d2) = enrich_all uid now rest d1
      in (r # rs, d2))"

text \<open>
  The route hands the validated page, an integer from 1 to 10 when present, to
  \<open>searchCards\<close>: such a number is printed in decimal digits and is not falsy.
\<close>

definition GET_cards_search ::
  "search_request \<Rightarrow> auth \<Rightarrow> string \<Rightarrow> ScryfallSearchResponse exchange list \<Rightarrow> client \<Rightarrow> db \<Rightarrow>
   CardSearchResult SearchResponse http option \<times> ScryfallSearchResponse exchange list \<times> client \<times> db"
where
  "GET_cards_search req a now script c d =
     (case SearchCardsSchema_parse req of
        Inl issues \<Rightarrow>
          (Some (caught ''Invalid request parameters'' (ZodError issues)), script, c, d)
      | Inr v \<Rightarrow>
          (case session_user a of
             None \<Rightarrow> (Some unauthorized, script, c, d)
           | Some uid \<Rightarrow>
               (case searchCards decimal (v_q v)
                       \<lparr>unique = v_unique v, page = v_page v,
                        include_extras = None, include_multilingual = None\<rparr> script c of
                  (None, script', c') \<Rightarrow> (None, script', c', d)
                | (Some (Threw e), script', c') \<Rightarrow>
                    (Some (caught ''Invalid request parameters'' (OtherError e)), script', c', d)
                | (Some (Returned searchResult), script', c') \<Rightarrow>
                    if \<not> service_role_key d then
                      (Some (caught ''Invalid request parameters''
                         (OtherError ''Missing SUPABASE_SERVICE_ROLE_KEY environment variable'')),
                       script', c', d)
                    else
                      (let (enhancedResults, d') = enrich_all uid now (data searchResult) d
                       in (Some (json_response
                             (Success \<lparr>object_tag = object_tag searchResult,
                                       total_cards = total_cards searchResult,
                                       has_more = has_more searchResult,
                                       data = enhancedResults\<rparr>) 200),
                           script', c', d')))))"

section \<open>The collection search route (packages/database/src/client.ts: the second GET)\<close>

text \<open>The \<^verbatim>\<open>params\<close> object of the route, and what \<^verbatim>\<open>SearchCollectionSchema\<close> makes of it.\<close>

record collection_request =
  cr_q :: "string option"
  cr_colors :: "string list option"
  cr_types :: "string list option"
  cr_sets :: "string list option"
  cr_cmc_min :: "number option"
  cr_cmc_max :: "number option"
  cr_rarity :: "string list option"
  cr_sort :: string
  cr_order :: string
  cr_page :: number
  cr_limit :: number

record validated_collection =
  vc_q :: "string option"
  vc_colors :: "string list option"
  vc_types :: "string list option"
  vc_sets :: "string list option"
  vc_cmc_min :: "int option"
  vc_cmc_max :: "int option"
  vc_rarity :: "string list option"
  vc_sort :: string
  vc_order :: string
  vc_page :: int
  vc_limit :: int

definition check_cmc :: "number option \<Rightarrow> string + int option" where
  "check_cmc v =
     (case v of
        None \<Rightarrow> Inr None
      | Some NaN \<Rightarrow> Inl ''invalid_type''
      | Some (Num n) \<Rightarrow>
          if n < 0 then Inl ''too_small''
          else if n > 20 then Inl ''too_big''
          else Inr (Some n))"

text \<open>
  \<^verbatim>\<open>z.array(z.enum([...]))\<close>: every element that is not in the enumeration gives an issue of
  its own, with the index of the element in the path.
\<close>

definition check_rarity :: "string list option \<Rightarrow> issue list + string list option" where
  "check_rarity v =
     (case v of
        None \<Rightarrow> Inr None
      | Some rs \<Rightarrow>
          (let bad = filter (\<lambda>(i, r). r \<notin> set [''common'', ''uncommon'', ''rare'', ''mythic''])
                       (enumerate 0 rs)
           in if bad = [] then Inr (Some rs)
              else Inl (map (\<lambda>(i, r). Issue [Key ''rarity'', Index i] ''invalid_enum_value'') bad)))"

definition check_enum :: "string list \<Rightarrow> string \<Rightarrow> string + string" where
  "check_enum allowed v = (if v \<in> set allowed then Inr v else Inl ''invalid_enum_value'')"

definition check_page :: "number \<Rightarrow> string + int" where
  "check_page v =
     (case v of
        NaN \<Rightarrow> Inl ''invalid_type''
      | Num n \<Rightarrow> if n < 1 then Inl ''too_small'' else Inr n)"

definition check_limit :: "number \<Rightarrow> string + int" where
  "check_limit v =
     (case v of
        NaN \<Rightarrow> Inl ''invalid_type''
      | Num n \<Rightarrow>
          if n < 1 then Inl ''too_small''
          else if n > 100 then Inl ''too_big''
          else Inr n)"

definition SearchCollectionSchema_parse :: "collection_request \<Rightarrow> issue list + validated_collection" where
  "SearchCollectionSchema_parse r =
     (case (check_cmc (cr_cmc_min r), check_cmc (cr_cmc_max r), check_rarity (cr_rarity r),
            check_enum [''name'', ''cmc'', ''rarity'', ''set'', ''added_at''] (cr_sort r),
            check_enum [''asc'', ''desc''] (cr_order r),
            check_page (cr_page r), check_limit (cr_limit r)) of
        (Inr lo, Inr hi, Inr ra, Inr so, Inr orr, Inr p, Inr l) \<Rightarrow>
          Inr \<lparr>vc_q = cr_q r, vc_colors = cr_colors r, vc_types = cr_types r,
               vc_sets = cr_sets r, vc_cmc_min = lo, vc_cmc_max = hi, vc_rarity = ra,
               vc_sort = so, vc_order = orr, vc_page = p, vc_limit = l\<rparr>
      | (lo, hi, ra, so, orr, p, l) \<Rightarrow>
          Inl (issues_of ''cmc_min'' lo @ issues_of ''cmc_max'' hi @ own_issues ra
               @ issues_of ''sort'' so @ issues_of ''order'' orr
               @ issues_of ''page'' p @ issues_of ''limit'' l))"

text \<open>
  A row of the collection with its card: \<^verbatim>\<open>card:cards_cache(*)\<close> embeds the cache row that
  the entry refers to, or \<^verbatim>\<open>null\<close>.
\<close>

type_synonym joined = "CollectionCard \<times> CardCache option"

definition join_card :: "db \<Rightarrow> CollectionCard \<Rightarrow> joined" where
  "join_card d r = (r, find (\<lambda>c. scryfall_id c = entry_scryfall_id r) (cards_cache d))"

text \<open>
  The filters that the route puts on a query, as data. What each of them accepts, and how
  rows are ordered by a column, is decided by the store's query service, which is not
  part of the repository: \<open>holds\<close> and \<open>ordered\<close> are parameters of the model.
\<close>

datatype pg_filter =
    Or_ilike string
  | Overlaps_colors "string list"
  | Or_type_ilike "string list"
  | In_set_code "string list"
  | Gte_cmc int
  | Lte_cmc int
  | In_rarity "string list"

record pg =
  holds :: "pg_filter \<Rightarrow> joined \<Rightarrow> bool"
  ordered :: "string \<Rightarrow> bool \<Rightarrow> joined list \<Rightarrow> joined list"

definition opt_text_filter :: "(string \<Rightarrow> pg_filter) \<Rightarrow> string option \<Rightarrow> pg_filter list" where
  "opt_text_filter mk v =
     (case v of Some s \<Rightarrow> if s \<noteq> [] then [mk s] else [] | None \<Rightarrow> [])"

definition opt_list_filter :: "(string list \<Rightarrow> pg_filter) \<Rightarrow> string list option \<Rightarrow> pg_filter list" where
  "opt_list_filter mk v =
     (case v of Some xs \<Rightarrow> if length xs > 0 then [mk xs] else [] | None \<Rightarrow> [])"

definition opt_num_filter :: "(int \<Rightarrow> pg_filter) \<Rightarrow> int option \<Rightarrow> pg_filter list" where
  "opt_num_filter mk v = (case v of Some n \<Rightarrow> [mk n] | None \<Rightarrow> [])"

text \<open>The filters of the data query (\<^verbatim>\<open>query\<close>).\<close>

definition query_filters :: "validated_collection \<Rightarrow> pg_filter list" where
  "query_filters v =
     opt_text_filter Or_ilike (vc_q v)
     @ opt_list_filter Overlaps_colors (vc_colors v)
     @ opt_list_filter Or_type_ilike (vc_types v)
     @ opt_list_filter In_set_code (vc_sets v)
     @ opt_num_filter Gte_cmc (vc_cmc_min v)
     @ opt_num_filter Lte_cmc (vc_cmc_max v)
     @ opt_list_filter In_rarity (vc_rarity v)"

text \<open>The filters of the count query (\<^verbatim>\<open>countQuery\<close>), which the source builds a second time.\<close>

definition countQuery_filters :: "validated_collection \<Rightarrow> pg_filter list" where
  "countQuery_filters v =
     opt_text_filter Or_ilike (vc_q v)
     @ opt_list_filter Overlaps_colors (vc_colors v)
     @ opt_list_filter Or_type_ilike (vc_types v)
     @ opt_list_filter In_set_code (vc_sets v)
     @ opt_num_filter Gte_cmc (vc_cmc_min v)
     @ opt_num_filter Lte_cmc (vc_cmc_max v)
     @ opt_list_filter In_rarity (vc_rarity v)"

definition sortColumn :: "string \<Rightarrow> string" where
  "sortColumn key =
     (if key = ''name'' then ''card.name''
      else if key = ''cmc'' then ''card.cmc''
      else if key = ''rarity'' then ''card.rarity''
      else if key = ''set'' then ''card.set_code''
      else if key = ''added_at'' then ''added_at''
      else ''card.name'')"

text \<open>\<^verbatim>\<open>.range(lo, hi)\<close>: the rows at the positions \<open>lo\<close> to \<open>hi\<close>, both included, counted from 0.\<close>

definition range_rows :: "int \<Rightarrow> int \<Rightarrow> 'a list \<Rightarrow> 'a list" where
  "range_rows lo hi xs = take (nat (hi - lo + 1)) (drop (nat lo) xs)"

text \<open>The rows of the user that pass all the filters given.\<close>

definition matching :: "pg \<Rightarrow> db \<Rightarrow> string \<Rightarrow> pg_filter list \<Rightarrow> joined list" where
  "matching sem d uid fs =
     filter (\<lambda>j. list_all (\<lambda>f. holds sem f j) fs)
       (map (join_card d)
          (filter (\<lambda>r. user_id r = uid) (filter (visible uid) (collection_cards d))))"

definition select_page :: "pg \<Rightarrow> db \<Rightarrow> string \<Rightarrow> validated_collection \<Rightarrow> joined list result" where
  "select_page sem d uid v =
     exec d SelectCollection
       (let rows = ordered sem (sortColumn (vc_sort v)) (vc_order v = ''asc'')
                     (matching sem d uid (query_filters v));
            offset = (vc_page v - 1) * vc_limit v
        in Data (range_rows offset (offset + vc_limit v - 1) rows))"

definition select_count :: "pg \<Rightarrow> db \<Rightarrow> string \<Rightarrow> validated_collection \<Rightarrow> int result" where
  "select_count sem d uid v =
     exec d CountCollection
       (Data (int (length (matching sem d uid (countQuery_filters v)))))"

record collection_page =
  page_data :: "joined list"
  pagination_page :: int
  pagination_limit :: int
  pagination_total :: int
  pagination_hasMore :: bool

definition GET_collection_search :: "pg \<Rightarrow> collection_request \<Rightarrow> auth \<Rightarrow> db \<Rightarrow> collection_page http" where
  "GET_collection_search sem req a d =
     (case SearchCollectionSchema_parse req of
        Inl issues \<Rightarrow> caught ''Invalid request parameters'' (ZodError issues)
      | Inr v \<Rightarrow>
          (case session_user a of
             None \<Rightarrow> unauthorized
           | Some uid \<Rightarrow>
               (case select_page sem d uid v of
                  Error msg \<Rightarrow>
                    caught ''Invalid request parameters''
                      (OtherError (''Failed to search collection: '' @ msg))
                | Data cards \<Rightarrow>
                    (let count = data_of (select_count sem d uid v);
                         total = (case count of Some n \<Rightarrow> if n \<noteq> 0 then n else 0 | None \<Rightarrow> 0)
                     in json_response
                          (Success \<lparr>page_data = cards,
                                    pagination_page = vc_page v,
                                    pagination_limit = vc_limit v,
                                    pagination_total = total,
                                    pagination_hasMore = (total > vc_page v * vc_limit v)\<rparr>)
                          200))))"

section \<open>The collection add route (apps/web/src/app/api/collection/add/route.ts)\<close>

text \<open>
  The request body as \<^verbatim>\<open>request.json()\<close> gives it: the call throws on text that is not
  JSON, and gives any JSON value otherwise. The fields of an object are JSON values; a
  field that is absent is \<open>None\<close>. Numbers are integral here.
\<close>

datatype jv = JNull | JBool bool | JNum int | JStr string

record add_body =
  b_scryfall_id :: "jv option"
  b_quantity :: "jv option"
  b_condition :: "jv option"
  b_foil :: "jv option"
  b_notes :: "jv option"

datatype raw_body = Unparsable | NotAnObject | Object add_body

record add_data =
  a_scryfall_id :: string
  a_quantity :: int
  a_condition :: string
  a_foil :: bool
  a_notes :: "string option"

definition is_hex :: "char \<Rightarrow> bool" where
  "is_hex ch = (ch \<in> set ''0123456789abcdefABCDEF'')"

text \<open>The shape that \<^verbatim>\<open>z.string().uuid()\<close> accepts: hexadecimal groups of 8, 4, 4, 4 and 12.\<close>

definition is_uuid :: "string \<Rightarrow> bool" where
  "is_uuid s =
     (length s = 36
      \<and> list_all is_hex (take 8 s) \<and> s ! 8 = CHR ''-''
      \<and> list_all is_hex (take 4 (drop 9 s)) \<and> s ! 13 = CHR ''-''
      \<and> list_all is_hex (take 4 (drop 14 s)) \<and> s ! 18 = CHR ''-''
      \<and> list_all is_hex (take 4 (drop 19 s)) \<and> s ! 23 = CHR ''-''
      \<and> list_all is_hex (drop 24 s))"

definition CARD_CONDITIONS :: "string list" where
  "CARD_CONDITIONS =
     [''mint'', ''near_mint'', ''excellent'', ''good'', ''light_played'', ''played'', ''poor'']"

definition check_scryfall_id :: "jv option \<Rightarrow> string + string" where
  "check_scryfall_id v =
     (case v of
        Some (JStr s) \<Rightarrow> if is_uuid s then Inr s else Inl ''invalid_string''
      | _ \<Rightarrow> Inl ''invalid_type'')"

definition check_quantity :: "jv option \<Rightarrow> string + int" where
  "check_quantity v =
     (case v of
        None \<Rightarrow> Inr 1
      | Some (JNum n) \<Rightarrow>
          if n < 1 then Inl ''too_small''
          else if n > 100 then Inl ''too_big''
          else Inr n
      | Some _ \<Rightarrow> Inl ''invalid_type'')"

definition check_condition :: "jv option \<Rightarrow> string + string" where
  "check_condition v =
     (case v of
        None \<Rightarrow> Inr ''near_mint''
      | Some (JStr s) \<Rightarrow> if s \<in> set CARD_CONDITIONS then Inr s else Inl ''invalid_enum_value''
      | Some _ \<Rightarrow> Inl ''invalid_type'')"

definition check_foil :: "jv option \<Rightarrow> string + bool" where
  "check_foil v =
     (case v of
        None \<Rightarrow> Inr False
      | Some (JBool b) \<Rightarrow> Inr b
      | Some _ \<Rightarrow> Inl ''invalid_type'')"

definition check_notes :: "jv option \<Rightarrow> string + string option" where
  "check_notes v =
     (case v of
        None \<Rightarrow> Inr None
      | Some (JStr s) \<Rightarrow> if length s > 500 then Inl ''too_big'' else Inr (Some s)
      | Some _ \<Rightarrow> Inl ''invalid_type'')"

definition AddToCollectionSchema_parse :: "add_body \<Rightarrow> issue list + add_data" where
  "AddToCollectionSchema_parse b =
     (case (check_scryfall_id (b_scryfall_id b), check_quantity (b_quantity b),
            check_condition (b_condition b), check_foil (b_foil b), check_notes (b_notes b)) of
        (Inr s, Inr q, Inr c, Inr f, Inr n) \<Rightarrow>
          Inr \<lparr>a_scryfall_id = s, a_quantity = q, a_condition = c, a_foil = f, a_notes = n\<rparr>
      | (s, q, c, f, n) \<Rightarrow>
          Inl (issues_of ''scryfall_id'' s @ issues_of ''quantity'' q
               @ issues_of ''condition'' c @ issues_of ''foil'' f @ issues_of ''notes'' n))"

text \<open>
  The first query of the route: is the card in the cache?
  \<^verbatim>\<open>from('cards_cache').select('scryfall_id').eq('scryfall_id', id).single()\<close>.
\<close>

definition card_exists :: "db \<Rightarrow> string \<Rightarrow> string result" where
  "card_exists d sid =
     exec d (SelectCardExists sid)
       (single (map scryfall_id (filter (\<lambda>c. scryfall_id c = sid) (cards_cache d))))"

text \<open>The four \<^verbatim>\<open>.eq\<close> filters of the second query.\<close>

definition same_entry :: "string \<Rightarrow> add_data \<Rightarrow> CollectionCard \<Rightarrow> bool" where
  "same_entry uid v r =
     (user_id r = uid \<and> entry_scryfall_id r = a_scryfall_id v
      \<and> condition r = a_condition v \<and> foil r = a_foil v)"

text \<open>The second query; the route reads its \<^verbatim>\<open>data\<close> only (\<^verbatim>\<open>existingError\<close> is never used).\<close>

definition existing_card :: "db \<Rightarrow> string \<Rightarrow> add_data \<Rightarrow> CollectionCard option" where
  "existing_card d uid v =
     data_of (exec d SelectExisting
       (single (filter (same_entry uid v) (filter (visible uid) (collection_cards d)))))"

text \<open>
  \<^verbatim>\<open>update({quantity, notes}).eq('id', existingCard.id).select(...).single()\<close>: the two columns
  are written in every row of that id that the session may write, and the result is the
  written row when there is exactly one.
\<close>

definition merged :: "add_data \<Rightarrow> CollectionCard \<Rightarrow> CollectionCard \<Rightarrow> CollectionCard" where
  "merged v existingCard r =
     r\<lparr>quantity := quantity existingCard + a_quantity v,
       entry_notes := (case a_notes v of
                         Some n \<Rightarrow> if n \<noteq> [] then Some n else entry_notes existingCard
                       | None \<Rightarrow> entry_notes existingCard)\<rparr>"

definition update_entry :: "db \<Rightarrow> string \<Rightarrow> add_data \<Rightarrow> CollectionCard \<Rightarrow> joined result \<times> db" where
  "update_entry d uid v existingCard =
     (case db_error d (UpdateCollection (entry_id existingCard)) of
        Some msg \<Rightarrow> (Error msg, d)
      | None \<Rightarrow>
          (let hit = (\<lambda>r. visible uid r \<and> entry_id r = entry_id existingCard);
               d' = d\<lparr>collection_cards :=
                        map (\<lambda>r. if hit r then merged v existingCard r else r) (collection_cards d)\<rparr>
           in (single (map (join_card d') (filter hit (collection_cards d'))), d')))"

text \<open>
  Modelled from the spec: the schema of the collection table is not in the source. The
  spec gives it a uniqueness constraint over (user, external identifier, condition,
  foil), so an insert of a second row with the same four values is refused by the store.
  The store gives the new row its id (\<open>fresh_id\<close>) and its timestamps.
\<close>

definition same_key :: "CollectionCard \<Rightarrow> CollectionCard \<Rightarrow> bool" where
  "same_key r r' =
     (user_id r = user_id r' \<and> entry_scryfall_id r = entry_scryfall_id r'
      \<and> condition r = condition r' \<and> foil r = foil r')"

definition insert_entry :: "db \<Rightarrow> string \<Rightarrow> add_data \<Rightarrow> joined result \<times> db" where
  "insert_entry d uid v =
     (case db_error d InsertCollection of
        Some msg \<Rightarrow> (Error msg, d)
      | None \<Rightarrow>
          (let row = \<lparr>entry_id = fresh_id d, user_id = uid,
                      entry_scryfall_id = a_scryfall_id v, quantity = a_quantity v,
                      condition = a_condition v, foil = a_foil v, entry_notes = a_notes v,
                      added_at = db_now d, entry_updated_at = db_now d\<rparr>
           in if list_ex (same_key row) (collection_cards d)
              then (Error ''duplicate key value violates unique constraint'', d)
              else (Data (join_card d row), d\<lparr>collection_cards := collection_cards d @ [row]\<rparr>)))"

definition POST_collection_add :: "raw_body \<Rightarrow> auth \<Rightarrow> db \<Rightarrow> joined http \<times> db" where
  "POST_collection_add body_json a d =
     (case body_json of
        Unparsable \<Rightarrow> (caught ''Invalid request data'' (OtherError ''SyntaxError''), d)
      | NotAnObject \<Rightarrow>
          (caught ''Invalid request data'' (ZodError [Issue [] ''invalid_type'']), d)
      | Object b \<Rightarrow>
          (case AddToCollectionSchema_parse b of
             Inl issues \<Rightarrow> (caught ''Invalid request data'' (ZodError issues), d)
           | Inr validatedData \<Rightarrow>
               (case session_user a of
                  None \<Rightarrow> (unauthorized, d)
                | Some uid \<Rightarrow>
                    (case card_exists d (a_scryfall_id validatedData) of
                       Error msg \<Rightarrow>
                         (json_response (Failure ''Card not found in database'') 404, d)
                     | Data cardExists \<Rightarrow>
                         (case existing_card d uid validatedData of
                            Some existingCard \<Rightarrow>
                              (case update_entry d uid validatedData existingCard of
                                 (Error msg, d') \<Rightarrow>
                                   (caught ''Invalid request data''
                                      (OtherError (''Failed to update collection card: '' @ msg)), d')
                               | (Data updatedCard, d') \<Rightarrow>
                                   (json_response (Success updatedCard) 200, d'))
                          | None \<Rightarrow>
                              (case insert_entry d uid validatedData of
                                 (Error msg, d') \<Rightarrow>
                                   (caught ''Invalid request data''
                                      (OtherError (''Failed to add card to collection: '' @ msg)), d')
                               | (Data newCard, d') \<Rightarrow>
                                   (json_response (Success newCard) 200, d')))))))"

section \<open>Predicates and inputs of the verified properties\<close>

text \<open>
  A client is \<open>throttled\<close> when its dispatches so far lie at least \<open>REQUEST_DELAY\<close> apart
  and the shared variable holds the time of the latest one.
\<close>

definition throttled :: "client \<Rightarrow> bool" where
  "throttled c =
     (spaced REQUEST_DELAY (dispatch_times c)
      \<and> (dispatch_times c = [] \<or> lastRequestTime c = last (dispatch_times c)))"

text \<open>Fields of a filter object that are empty: absent, the empty string, the empty array, a range without bounds.\<close>

definition empty_text :: "string option \<Rightarrow> bool" where
  "empty_text v = (v = None \<or> v = Some [])"

definition empty_list :: "string list option \<Rightarrow> bool" where
  "empty_list v = (v = None \<or> v = Some [])"

definition no_bounds :: "'n range option \<Rightarrow> bool" where
  "no_bounds r =
     (case r of None \<Rightarrow> True | Some rg \<Rightarrow> range_min rg = None \<and> range_max rg = None)"

text \<open>Every field but \<open>f_sets\<close> (and the two flags, which are not fields of their own clause) is empty.\<close>

definition only_sets :: "'n filters \<Rightarrow> bool" where
  "only_sets f =
     (empty_text (f_name f) \<and> empty_list (f_colors f) \<and> empty_list (f_colorIdentity f)
      \<and> empty_list (f_types f) \<and> empty_text (f_text f) \<and> no_bounds (f_manaValue f)
      \<and> no_bounds (f_power f) \<and> no_bounds (f_toughness f) \<and> empty_list (f_rarity f)
      \<and> empty_text (f_format f))"

fun threw :: "'a outcome \<Rightarrow> bool" where
  "threw (Threw e) = True"
| "threw (Returned x) = False"

text \<open>
  The enrichment of a card fails when the \<^verbatim>\<open>try\<close> block of the callback throws: the
  cache read throws and the cache write that follows throws as well.
\<close>

definition enrichment_fails :: "db \<Rightarrow> ScryfallCard \<Rightarrow> bool" where
  "enrichment_fails d sfc =
     (threw (getCardFromCache d (card_id sfc)) \<and> threw (fst (insertCardToCache d sfc)))"

subsection \<open>Concrete responses, clients and stores\<close>

definition too_many :: "ScryfallSearchResponse exchange" where
  "too_many = \<lparr>latency = 50, settles = Reply \<lparr>status = 429,
       statusText = ''Too Many Requests'', body = NotJson\<rparr>\<rparr>"

definition fine :: "ScryfallSearchResponse exchange" where
  "fine = \<lparr>latency = 50, settles = Reply \<lparr>status = 200, statusText = ''OK'',
       body = Payload empty_result\<rparr>\<rparr>"

definition no_match :: "ScryfallSearchResponse exchange" where
  "no_match = \<lparr>latency = 50, settles = Reply \<lparr>status = 404, statusText = ''Not Found'',
       body = ErrorObject ''not_found'' (Some ''No cards found matching your query.'')\<rparr>\<rparr>"

definition idle :: client where
  "idle = \<lparr>lastRequestTime = 0, clock = 5000, dispatched = []\<rparr>"

definition plain :: "int search_options" where
  "plain = \<lparr>unique = None, page = None, include_extras = None, include_multilingual = None\<rparr>"

definition fresh_process :: process where
  "fresh_process = \<lparr>shared = \<lparr>lastRequestTime = 0, clock = 0, dispatched = []\<rparr>, timers = []\<rparr>"

definition two_sets :: "int filters" where
  "two_sets = \<lparr>f_name = None, f_colors = None, f_colorIdentity = Some [], f_types = None,
     f_text = Some [], f_manaValue = None, f_power = Some \<lparr>range_min = None, range_max = None\<rparr>,
     f_toughness = None, f_sets = Some [''lea'', ''m10''], f_rarity = None, f_format = None,
     f_banned = None, f_legal = Some True\<rparr>"

definition bolt :: ScryfallCard where
  "bolt = \<lparr>card_id = ''abc123'', card_name = ''Lightning Bolt'', card_mana_cost = Some ''{R}'',
     card_cmc = 1, card_type_line = ''Instant'', card_oracle_text = None, card_colors = [''R''],
     card_color_identity = [''R''], card_keywords = None, card_power = None,
     card_toughness = None, card_image_uris = None, card_prices = ''{}'', card_legalities = ''{}'',
     card_set = ''lea'', card_set_name = ''Alpha'', card_rarity = ''common''\<rparr>"

definition shock :: ScryfallCard where
  "shock = bolt\<lparr>card_id := ''def456'', card_name := ''Shock''\<rparr>"

definition entry :: "string \<Rightarrow> string \<Rightarrow> string \<Rightarrow> int \<Rightarrow> bool \<Rightarrow> string option \<Rightarrow> CollectionCard" where
  "entry rid uid sid n fl nt =
     \<lparr>entry_id = rid, user_id = uid, entry_scryfall_id = sid, quantity = n,
      condition = ''near_mint'', foil = fl, entry_notes = nt,
      added_at = ''2024-01-01'', entry_updated_at = ''2024-01-01''\<rparr>"

definition healthy :: "db_op \<Rightarrow> string option" where
  "healthy op = None"

definition two_printings :: db where
  "two_printings =
     \<lparr>cards_cache = [card_columns bolt None ''2024-01-01'' ''2024-01-01''],
      collection_cards = [entry ''r1'' ''alice'' ''abc123'' 2 False None,
                          entry ''r2'' ''alice'' ''abc123'' 1 True None],
      db_error = healthy, db_now = ''2024-06-01'', fresh_id = ''r9'',
      service_role_key = True\<rparr>"

definition bolt_request :: search_request where
  "bolt_request = \<lparr>req_q = Some ''bolt'', req_page = None, req_unique = Some ''cards''\<rparr>"

definition refuses_shock :: "db_op \<Rightarrow> string option" where
  "refuses_shock op = (if op = UpsertCache ''def456'' then Some ''write refused'' else None)"

definition empty_cache :: db where
  "empty_cache =
     \<lparr>cards_cache = [],
      collection_cards = [entry ''r1'' ''alice'' ''abc123'' 3 False None],
      db_error = refuses_shock, db_now = ''2024-06-01'', fresh_id = ''r9'',
      service_role_key = True\<rparr>"

definition accept_all :: pg where
  "accept_all = \<lparr>holds = (\<lambda>f j. True), ordered = (\<lambda>col asc rows. rows)\<rparr>"

definition count_down :: "db_op \<Rightarrow> string option" where
  "count_down op = (if op = CountCollection then Some ''timeout'' else None)"

definition three_entries :: "(db_op \<Rightarrow> string option) \<Rightarrow> db" where
  "three_entries err =
     \<lparr>cards_cache = [],
      collection_cards = [entry ''r1'' ''alice'' ''abc123'' 1 False None,
                          entry ''r2'' ''alice'' ''def456'' 1 False None,
                          entry ''r3'' ''alice'' ''0a0a0a'' 1 False None],
      db_error = err, db_now = ''2024-06-01'', fresh_id = ''r9'',
      service_role_key = True\<rparr>"

definition one_per_page :: "int \<Rightarrow> collection_request" where
  "one_per_page p =
     \<lparr>cr_q = None, cr_colors = None, cr_types = None, cr_sets = None, cr_cmc_min = None,
      cr_cmc_max = None, cr_rarity = None, cr_sort = ''name'', cr_order = ''asc'',
      cr_page = Num p, cr_limit = Num 1\<rparr>"

definition validated_one_per_page :: "int \<Rightarrow> validated_collection" where
  "validated_one_per_page p =
     \<lparr>vc_q = None, vc_colors = None, vc_types = None, vc_sets = None, vc_cmc_min = None,
      vc_cmc_max = None, vc_rarity = None, vc_sort = ''name'', vc_order = ''asc'',
      vc_page = p, vc_limit = 1\<rparr>"

definition no_query :: search_request where
  "no_query = \<lparr>req_q = None, req_page = None, req_unique = Some ''cards''\<rparr>"

definition bolt_uuid :: string where
  "bolt_uuid = ''123e4567-e89b-12d3-a456-426614174000''"

definition add_request :: "int \<Rightarrow> bool \<Rightarrow> string option \<Rightarrow> add_body" where
  "add_request n fl nt =
     \<lparr>b_scryfall_id = Some (JStr bolt_uuid), b_quantity = Some (JNum n), b_condition = None,
      b_foil = Some (JBool fl), b_notes = map_option JStr nt\<rparr>"

definition added :: "int \<Rightarrow> bool \<Rightarrow> string option \<Rightarrow> add_data" where
  "added n fl nt =
     \<lparr>a_scryfall_id = bolt_uuid, a_quantity = n, a_condition = ''near_mint'', a_foil = fl,
      a_notes = nt\<rparr>"

definition signed_bolt :: db where
  "signed_bolt =
     \<lparr>cards_cache = [card_columns (bolt\<lparr>card_id := bolt_uuid\<rparr>) None ''2024-01-01'' ''2024-01-01''],
      collection_cards = [entry ''r1'' ''alice'' bolt_uuid 2 False (Some ''signed''),
                          entry ''r2'' ''bob'' bolt_uuid 5 False None],
      db_error = healthy, db_now = ''2024-06-01'', fresh_id = ''r9'',
      service_role_key = True\<rparr>"

definition counterspell :: ScryfallCard where
  "counterspell = bolt\<lparr>card_id := ''0c0c0c'', card_name := ''Counterspell''\<rparr>"

definition three_cards :: "ScryfallSearchResponse exchange" where
  "three_cards = \<lparr>latency = 50, settles = Reply \<lparr>status = 200, statusText = ''OK'',
       body = Payload \<lparr>object_tag = ''list'', total_cards = 3, has_more = False,
                       data = [bolt, shock, counterspell]\<rparr>\<rparr>\<rparr>"

text \<open>
  A store that has cached the first card (with a local image), refuses to cache the
  second, and fails the ownership lookup of the first and the third.
\<close>

definition mixed_errors :: "db_op \<Rightarrow> string option" where
  "mixed_errors op =
     (if op = SelectOwned ''abc123'' \<or> op = SelectOwned ''0c0c0c'' then Some ''timeout''
      else if op = UpsertCache ''def456'' then Some ''write refused''
      else None)"

definition mixed_store :: db where
  "mixed_store =
     \<lparr>cards_cache = [card_columns bolt (Some ''cards/abc123.jpg'') ''2024-01-01'' ''2024-01-01''],
      collection_cards = [entry ''r1'' ''alice'' ''abc123'' 3 False None],
      db_error = mixed_errors, db_now = ''2024-06-01'', fresh_id = ''r9'',
      service_role_key = True\<rparr>"

text \<open>The issues of a validation are about fields: the path of each starts with one of the keys.\<close>

fun field_of :: "issue \<Rightarrow> string option" where
  "field_of (Issue (Key k # rest) code) = Some k"
| "field_of (Issue path code) = None"

definition about_fields :: "string list \<Rightarrow> issue list \<Rightarrow> bool" where
  "about_fields keys issues = list_all (\<lambda>i. field_of i \<in> Some ` set keys) issues"

definition shiny_request :: collection_request where
  "shiny_request = (one_per_page 1)\<lparr>cr_rarity := Some [''rare'', ''shiny'', ''foil'']\<rparr>"

definition store_down :: "db_op \<Rightarrow> string option" where
  "store_down op = Some ''connection refused''"

definition select_down :: "db_op \<Rightarrow> string option" where
  "select_down op = (if op = SelectCollection then Some ''timeout'' else None)"

definition update_down :: "db_op \<Rightarrow> string option" where
  "update_down op = (if op = UpdateCollection ''r1'' then Some ''timeout'' else None)"

definition insert_down :: "db_op \<Rightarrow> string option" where
  "insert_down op = (if op = InsertCollection then Some ''timeout'' else None)"

section \<open>The rate-limited fetch client: properties\<close>

lemmas client_defs = sleep_def dispatch_def throttle_wait_def REQUEST_DELAY_def ok_def

text \<open>
  C1. The claim: on a 429 the client waits 1000 ms and retries exactly once, and a second
  429 is a failure for the caller. The source recurses on every 429, so a second 429 is
  retried like the first: with the replies 429, 429, 200 the call dispatches three
  requests (1050 ms apart: the latency of 50 ms and the wait of 1000 ms) and returns the
  third reply, where the claim has a failure after the second dispatch.
\<close>

theorem second_429_is_retried_again:
  "rateLimitedFetch (''u'', []) [too_many, too_many, fine] idle =
     (Some (Returned \<lparr>status = 200, statusText = ''OK'', body = Payload empty_result\<rparr>), [],
      \<lparr>lastRequestTime = 7100, clock = 7150,
       dispatched = [(5000, ''u'', []), (6050, ''u'', []), (7100, ''u'', [])]\<rparr>)"
  by (simp add: too_many_def fine_def idle_def client_defs)

text \<open>
  The same for any number of 429 replies: each is followed by one more dispatch, and the
  first reply with an ok status is what the caller gets.
\<close>

lemma every_429_is_retried:
  assumes "list_all (\<lambda>x. \<exists>r. settles x = Reply r \<and> status r = 429) xs"
    and "settles y = Reply r" and "ok r"
  shows "fst (rateLimitedFetch url (xs @ [y]) c) = Some (Returned r)
       \<and> length (dispatched (snd (snd (rateLimitedFetch url (xs @ [y]) c))))
           = length (dispatched c) + length xs + 1"
  using assms
proof (induction xs arbitrary: c)
  case Nil
  then show ?case by (simp add: client_defs Let_def)
next
  case (Cons x xs)
  from Cons.prems(1) obtain r' where r': "settles x = Reply r'" "status r' = 429" by auto
  have nok: "\<not> ok r'" using r' by (simp add: ok_def)
  let ?c' = "sleep 1000 (sleep (int (latency x))
               (dispatch url (sleep (throttle_wait (clock c) (lastRequestTime c)) c)))"
  have unfold: "rateLimitedFetch url ((x # xs) @ [y]) c = rateLimitedFetch url (xs @ [y]) ?c'"
    using r' nok by (simp add: Let_def)
  have len: "length (dispatched ?c') = length (dispatched c) + 1"
    by (simp add: sleep_def dispatch_def)
  from Cons.IH[of ?c'] Cons.prems show ?case
    unfolding unfold len by simp
qed

text \<open>A server that only ever answers 429 keeps the call pending for as long as it answers.\<close>

lemma only_429_never_settles:
  assumes "list_all (\<lambda>x. \<exists>r. settles x = Reply r \<and> status r = 429) xs"
  shows "fst (rateLimitedFetch url xs c) = None"
  using assms
proof (induction xs arbitrary: c)
  case Nil
  then show ?case by (simp add: Let_def)
next
  case (Cons x xs)
  from Cons.prems obtain r' where r': "settles x = Reply r'" "status r' = 429" by auto
  have "\<not> ok r'" using r' by (simp add: ok_def)
  with r' Cons show ?case by (simp add: Let_def)
qed

text \<open>
  C9. The claim: any two consecutive outbound requests of the process are dispatched at
  least 100 ms apart. The source reads the shared variable before it waits and writes it
  after, without looking again. Two callers that start to wait after the same dispatch
  wake at the same time and both dispatch: a call at clock 1000 dispatches at once, the
  calls at 1010 and 1020 both wait until 1100, and both dispatch at 1100.
\<close>

theorem two_waiters_dispatch_together:
  "map_option (\<lambda>p. dispatch_times (shared p))
     (run [Call 1000 (''a'', []), Call 1010 (''b'', []), Call 1020 (''c'', []),
           Wake 1100, Wake 1100] fresh_process) = Some [1000, 1100, 1100]
   \<and> \<not> spaced REQUEST_DELAY [1000, 1100, 1100]"
  by (simp add: fresh_process_def enter_def dispatch_times_def client_defs)

text \<open>
  With one caller at a time the interval is kept: a call started on a throttled client
  leaves a throttled client, whatever the server answers and however often it retries.
\<close>

lemma spaced_snoc:
  "spaced d (ts @ [t]) = (spaced d ts \<and> (ts = [] \<or> last ts + d \<le> t))"
  by (induction d ts rule: spaced.induct) auto

lemma throttled_dispatch:
  assumes "throttled c"
  shows "throttled (dispatch url (sleep (throttle_wait (clock c) (lastRequestTime c)) c))"
  using assms
  by (auto simp: throttled_def dispatch_times_def dispatch_def sleep_def spaced_snoc
        throttle_wait_def REQUEST_DELAY_def Let_def last_map)

lemma throttled_sleep: "throttled (sleep ms c) = throttled c"
  by (simp add: throttled_def sleep_def dispatch_times_def)

lemma one_caller_is_throttled:
  "throttled c \<Longrightarrow> throttled (snd (snd (rateLimitedFetch url script c)))"
proof (induction url script c rule: rateLimitedFetch.induct)
  case (1 url c)
  then show ?case by (simp add: Let_def throttled_dispatch)
next
  case (2 url x script c)
  let ?c3 = "sleep (int (latency x))
               (dispatch url (sleep (throttle_wait (clock c) (lastRequestTime c)) c))"
  have t3: "throttled ?c3"
    using "2.prems" by (simp add: throttled_sleep throttled_dispatch)
  show ?case
  proof (cases "settles x")
    case (NetworkFailure msg)
    then show ?thesis using t3 by (simp add: Let_def)
  next
    case (Reply r)
    show ?thesis
    proof (cases "\<not> ok r \<and> status r = 429")
      case True
      have "throttled (sleep 1000 ?c3)" using t3 by (simp add: throttled_sleep)
      from "2.IH"[OF refl refl refl Reply _ _ this] True Reply
      show ?thesis by (simp add: Let_def)
    next
      case False
      then show ?thesis using t3 Reply by (auto simp: Let_def)
    qed
  qed
qed

section \<open>The card search gateway: properties\<close>

lemma show_nat_404: "show_nat 404 = ''404''"
  by (simp add: show_nat.simps[of 404] show_nat.simps[of 40] show_nat.simps[of 4])

text \<open>
  C3. The claim: when the API answers with an error object of code \<open>not_found\<close>,
  \<open>searchCards\<close> returns the empty result and never throws. \<open>searchCards\<close> reads the body
  only of a response that \<open>rateLimitedFetch\<close> returned, and \<open>rateLimitedFetch\<close> throws on
  every status outside 200 to 299 other than 429. An error object that comes with status
  404 is never read: the call throws the status error.
\<close>

theorem not_found_with_status_404_throws:
  "fst (searchCards decimal ''zzzz'' plain [no_match] idle)
     = Some (Threw ''Scryfall API error: 404 Not Found'')"
  by (simp add: searchCards_def no_match_def idle_def client_defs status_error_def show_nat_404)

text \<open>In a response with an ok status the error object is read as the claim says.\<close>

lemma not_found_in_ok_response:
  assumes "settles x = Reply r" and "ok r" and "body r = ErrorObject ''not_found'' details"
  shows "fst (searchCards js q opts (x # script) c) = Some (Returned empty_result)"
  using assms by (simp add: searchCards_def Let_def read_search_body_def)

lemma other_error_in_ok_response:
  assumes "settles x = Reply r" and "ok r" and "body r = ErrorObject code (Some details)"
    and "code \<noteq> ''not_found''" and "details \<noteq> []"
  shows "fst (searchCards js q opts (x # script) c) = Some (Threw details)"
  using assms by (simp add: searchCards_def Let_def read_search_body_def)

lemma text_part_empty: "empty_text v \<Longrightarrow> text_part key v = []"
  by (auto simp: empty_text_def text_part_def)

lemma letters_part_empty: "empty_list v \<Longrightarrow> letters_part key v = []"
  by (auto simp: empty_list_def letters_part_def)

lemma or_part_empty: "empty_list v \<Longrightarrow> or_part key v = []"
  by (auto simp: empty_list_def or_part_def)

lemma bound_part_empty:
  "no_bounds r \<Longrightarrow> bound_part js key r range_min = [] \<and> bound_part js key r range_max = []"
  by (auto simp: no_bounds_def bound_part_def split: option.splits)

lemma format_part_empty: "empty_text (f_format f) \<Longrightarrow> format_part f = []"
  by (auto simp: empty_text_def format_part_def)

text \<open>
  C8. When the sets list, of \<open>N\<close> values, is the only field of the filter object that is
  not empty, the compiled query is exactly one clause in parentheses: the \<open>N\<close> terms
  \<^verbatim>\<open>s:"<set>"\<close>, in the order of the list, joined by \<^verbatim>\<open> OR \<close>. No number is printed
  for such a filter, so this holds whatever the numbers are.
\<close>

theorem sets_only_is_one_or_clause:
  assumes "only_sets f" and "f_sets f = Some ss" and "ss \<noteq> []"
  shows "queryParts js f = [''('' @ join_str '' OR '' (map (\<lambda>s. ''s:'' @ quoted s) ss) @ '')'']
       \<and> compiled_query js f = ''('' @ join_str '' OR '' (map (\<lambda>s. ''s:'' @ quoted s) ss) @ '')''
       \<and> length (map (\<lambda>s. ''s:'' @ quoted s) ss) = length ss"
proof -
  have parts: "queryParts js f = or_part ''s:'' (f_sets f)"
    using assms(1)
    by (simp add: only_sets_def queryParts_def text_part_empty letters_part_empty
          or_part_empty bound_part_empty format_part_empty)
  have "or_part ''s:'' (f_sets f)
          = [''('' @ join_str '' OR '' (map (\<lambda>s. ''s:'' @ quoted s) ss) @ '')'']"
    using assms(2,3) by (simp add: or_part_def)
  with parts show ?thesis by (simp add: compiled_query_def)
qed

theorem sets_only_is_one_or_clause_witness:
  "only_sets two_sets \<and> f_sets two_sets = Some [''lea'', ''m10'']
   \<and> compiled_query decimal two_sets
       = ''(s:'' @ [dq] @ ''lea'' @ [dq] @ '' OR s:'' @ [dq] @ ''m10'' @ [dq] @ '')''"
proof -
  have a: "only_sets two_sets"
    by (simp add: only_sets_def two_sets_def empty_text_def empty_list_def no_bounds_def)
  have b: "f_sets two_sets = Some [''lea'', ''m10'']" by (simp add: two_sets_def)
  from sets_only_is_one_or_clause[OF a b, of decimal] a b show ?thesis by (simp add: quoted_def)
qed

section \<open>The cards search route: properties\<close>

text \<open>
  C6. The claim: \<open>in_collection\<close> is true exactly when the requesting user has a collection
  entry for the card, and \<open>collection_quantity\<close> is the stored quantity. The ownership
  query ends in \<^verbatim>\<open>.single()\<close>, which gives no row when several match, and the data model
  allows several entries of one user for one card (they differ in condition or foil). A
  user with a non-foil entry of quantity 2 and a foil entry of quantity 1 of a card gets
  that card back as not owned, with quantity 0.
\<close>

theorem owner_of_two_entries_is_shown_as_not_owning:
  "in_collection (fst (enrich ''alice'' ''2024-06-01'' bolt two_printings)) = False
   \<and> collection_quantity (fst (enrich ''alice'' ''2024-06-01'' bolt two_printings)) = 0
   \<and> map quantity (filter (\<lambda>r. user_id r = ''alice'' \<and> entry_scryfall_id r = card_id bolt)
        (collection_cards two_printings)) = [2, 1]"
  by (simp add: enrich_def getCardFromCache_def withErrorHandling_def exec_def two_printings_def
        healthy_def card_columns_def bolt_def owned_quantity_def visible_def entry_def
        CardCache.extend_def CardSearchResult.fields_def)

text \<open>With at most one entry of the user for the card, the lookup gives what the claim says.\<close>

lemma owned_quantity_one:
  assumes "db_error d (SelectOwned sid) = None"
    and "filter (\<lambda>r. user_id r = uid \<and> entry_scryfall_id r = sid) (collection_cards d) = [e]"
  shows "owned_quantity d uid sid = Some (quantity e)"
proof -
  have "filter (\<lambda>r. entry_scryfall_id r = sid) (filter (visible uid) (collection_cards d)) = [e]"
    using assms(2) by (simp add: visible_def conj_commute)
  then show ?thesis using assms(1) by (simp add: owned_quantity_def exec_def)
qed

lemma owned_quantity_none:
  assumes "filter (\<lambda>r. user_id r = uid \<and> entry_scryfall_id r = sid) (collection_cards d) = []"
  shows "owned_quantity d uid sid = None"
proof -
  have "filter (\<lambda>r. entry_scryfall_id r = sid) (filter (visible uid) (collection_cards d)) = []"
    using assms by (simp add: visible_def conj_commute)
  then show ?thesis by (simp add: owned_quantity_def exec_def split: option.splits)
qed

lemma enrich_fallback:
  "enrichment_fails d sfc \<Longrightarrow> fst (enrich uid now sfc d) = fallback sfc now"
  by (cases "getCardFromCache d (card_id sfc)"; cases "insertCardToCache d sfc";
      cases "fst (insertCardToCache d sfc)")
     (auto simp: enrichment_fails_def enrich_def)

lemma enrich_all_Cons:
  "enrich_all uid now (sfc # rest) d =
     (fst (enrich uid now sfc d) # fst (enrich_all uid now rest (snd (enrich uid now sfc d))),
      snd (enrich_all uid now rest (snd (enrich uid now sfc d))))"
  by (simp add: Let_def case_prod_beta)

lemma length_enrich_all: "length (fst (enrich_all uid now cs d)) = length cs"
  by (induction cs arbitrary: d) (simp_all add: enrich_all_Cons del: enrich_all.simps(2))

lemma enrich_all_nth:
  "i < length cs \<Longrightarrow>
   fst (enrich_all uid now cs d) ! i
     = fst (enrich uid now (cs ! i) (snd (enrich_all uid now (take i cs) d)))"
proof (induction cs arbitrary: d i)
  case Nil
  then show ?case by simp
next
  case (Cons sfc cs)
  show ?case
  proof (cases i)
    case 0
    then show ?thesis by (simp add: enrich_all_Cons del: enrich_all.simps(2))
  next
    case (Suc j)
    with Cons.prems have "j < length cs" by simp
    from Cons.IH[OF this, of "snd (enrich uid now sfc d)"] Suc
    show ?thesis by (simp add: enrich_all_Cons del: enrich_all.simps(2))
  qed
qed

lemma fallback_not_owned:
  "in_collection (fallback sfc now) = False \<and> collection_quantity (fallback sfc now) = 0"
  by (simp add: fallback_def CardCache.extend_def CardSearchResult.fields_def)

text \<open>The enrichment writes the cache table only; which operations fail stays as it was.\<close>

lemma db_error_insertCardToCache: "db_error (snd (insertCardToCache d sfc)) = db_error d"
  by (simp add: insertCardToCache_def Let_def case_prod_beta split: option.splits)

lemma db_error_enrich: "db_error (snd (enrich uid now sfc d)) = db_error d"
  by (cases "getCardFromCache d (card_id sfc)"; cases "insertCardToCache d sfc";
      cases "fst (insertCardToCache d sfc)")
     (use db_error_insertCardToCache[of d sfc] in \<open>auto simp: enrich_def Let_def\<close>)

lemma db_error_enrich_all: "db_error (snd (enrich_all uid now cs d)) = db_error d"
  by (induction cs arbitrary: d)
     (simp_all add: enrich_all_Cons db_error_enrich del: enrich_all.simps(2))

lemma enrich_lookup_failed:
  assumes "db_error d (SelectOwned (card_id sfc)) = Some msg"
  shows "in_collection (fst (enrich uid now sfc d)) = False
       \<and> collection_quantity (fst (enrich uid now sfc d)) = 0"
proof -
  have "owned_quantity d' uid (card_id sfc) = None" if "db_error d' = db_error d" for d'
    using that assms by (simp add: owned_quantity_def exec_def)
  then show ?thesis
    using db_error_insertCardToCache[of d sfc]
    by (cases "getCardFromCache d (card_id sfc)"; cases "insertCardToCache d sfc";
        cases "fst (insertCardToCache d sfc)")
       (auto simp: enrich_def Let_def fallback_not_owned CardCache.extend_def
          CardSearchResult.fields_def)
qed

text \<open>The record of a card whose enrichment fails, field by field.\<close>

lemma enrich_minimal:
  assumes "enrichment_fails d sfc"
  shows "fst (enrich uid now sfc d) =
     \<lparr>scryfall_id = card_id sfc, name = card_name sfc, mana_cost = card_mana_cost sfc,
      cmc = card_cmc sfc, type_line = card_type_line sfc, oracle_text = card_oracle_text sfc,
      colors = card_colors sfc, color_identity = card_color_identity sfc,
      keyword_list = card_keywords sfc, power_text = card_power sfc,
      toughness = card_toughness sfc, image_uris = card_image_uris sfc,
      local_image_url = None, prices = Some (card_prices sfc),
      legalities = Some (card_legalities sfc), set_code = card_set sfc,
      rarity = card_rarity sfc, created_at = now, updated_at = now,
      in_collection = False, collection_quantity = 0\<rparr>"
  using enrich_fallback[OF assms]
  by (simp add: fallback_def card_columns_def CardCache.extend_def CardSearchResult.fields_def)

text \<open>The record of a card whose ownership lookup fails: the row of the cache, not owned.\<close>

lemma owned_quantity_failed:
  "db_error d (SelectOwned sid) = Some msg \<Longrightarrow> owned_quantity d uid sid = None"
  by (simp add: owned_quantity_def exec_def)

lemma enrich_cached_lookup_failed:
  assumes "db_error d (SelectOwned (card_id sfc)) = Some msg"
    and "getCardFromCache d (card_id sfc) = Returned r"
  shows "fst (enrich uid now sfc d) = CardCache.extend r (CardSearchResult.fields False 0)"
  using assms by (simp add: enrich_def owned_quantity_failed)

lemma enrich_written_lookup_failed:
  assumes "db_error d (SelectOwned (card_id sfc)) = Some msg"
    and "getCardFromCache d (card_id sfc) = Threw e"
    and "fst (insertCardToCache d sfc) = Returned r"
  shows "fst (enrich uid now sfc d) = CardCache.extend r (CardSearchResult.fields False 0)"
proof -
  obtain o' d' where ins: "insertCardToCache d sfc = (o', d')" by (cases "insertCardToCache d sfc")
  with assms(3) have o': "o' = Returned r" by simp
  from ins have "db_error d' = db_error d"
    using db_error_insertCardToCache[of d sfc] by simp
  with assms(1) have "owned_quantity d' uid (card_id sfc) = None"
    by (simp add: owned_quantity_failed)
  with assms(2) ins o' show ?thesis by (simp add: enrich_def)
qed

text \<open>
  C4, as stated, fails for a card whose ownership lookup fails. The callback reads only
  the \<open>data\<close> of that lookup, so a failed lookup does not reach the \<^verbatim>\<open>catch\<close> block: the card
  is answered with its row of the cache (here with the local image and the creation
  time of the row) and not with the record built from the external payload.
\<close>

theorem failed_ownership_lookup_keeps_the_cached_row:
  "db_error mixed_store (SelectOwned (card_id bolt)) = Some ''timeout''
   \<and> fst (enrich ''alice'' ''2024-06-02'' bolt mixed_store)
       = CardCache.extend
           (card_columns bolt (Some ''cards/abc123.jpg'') ''2024-01-01'' ''2024-01-01'')
           (CardSearchResult.fields False 0)
   \<and> local_image_url (fst (enrich ''alice'' ''2024-06-02'' bolt mixed_store))
       = Some ''cards/abc123.jpg''
   \<and> created_at (fst (enrich ''alice'' ''2024-06-02'' bolt mixed_store)) = ''2024-01-01''
   \<and> fst (enrich ''alice'' ''2024-06-02'' bolt mixed_store)
       \<noteq> \<lparr>scryfall_id = card_id bolt, name = card_name bolt, mana_cost = card_mana_cost bolt,
           cmc = card_cmc bolt, type_line = card_type_line bolt,
           oracle_text = card_oracle_text bolt, colors = card_colors bolt,
           color_identity = card_color_identity bolt, keyword_list = card_keywords bolt,
           power_text = card_power bolt, toughness = card_toughness bolt,
           image_uris = card_image_uris bolt, local_image_url = None,
           prices = Some (card_prices bolt), legalities = Some (card_legalities bolt),
           set_code = card_set bolt, rarity = card_rarity bolt,
           created_at = ''2024-06-02'', updated_at = ''2024-06-02'',
           in_collection = False, collection_quantity = 0\<rparr>"
proof -
  have err: "db_error mixed_store (SelectOwned (card_id bolt)) = Some ''timeout''"
    by (simp add: mixed_store_def mixed_errors_def bolt_def)
  have hit: "getCardFromCache mixed_store (card_id bolt)
      = Returned (card_columns bolt (Some ''cards/abc123.jpg'') ''2024-01-01'' ''2024-01-01'')"
    by (simp add: getCardFromCache_def withErrorHandling_def exec_def mixed_store_def
          mixed_errors_def card_columns_def bolt_def)
  have row: "fst (enrich ''alice'' ''2024-06-02'' bolt mixed_store)
       = CardCache.extend
           (card_columns bolt (Some ''cards/abc123.jpg'') ''2024-01-01'' ''2024-01-01'')
           (CardSearchResult.fields False 0)"
    by (rule enrich_cached_lookup_failed[OF err hit])
  show ?thesis
    unfolding row using err
    by (simp add: card_columns_def CardCache.extend_def CardSearchResult.fields_def)
qed

text \<open>
  C4, amended. For a validated request of an authenticated user whose external search
  returned a page, the route answers 200 and the data of the answer has one element per
  card of the page, whatever the store does for the single cards. A card whose cache read
  and cache write both fail (in the state of the store that the cards before it have
  left) is answered by the minimal record: every column taken from the card of the
  external payload, no local image, the two timestamps at the time of the request,
  \<open>in_collection\<close> false and \<open>collection_quantity\<close> 0. A card whose ownership lookup fails
  is answered with \<open>in_collection\<close> false and \<open>collection_quantity\<close> 0 too, and, when its
  cache read or else its cache write succeeds, with the row of the cache as it is.
\<close>

theorem search_page_keeps_every_card:
  assumes "SearchCardsSchema_parse req = Inr v"
    and "session_user a = Some uid"
    and "searchCards decimal (v_q v) \<lparr>unique = v_unique v, page = v_page v,
           include_extras = None, include_multilingual = None\<rparr> script c
         = (Some (Returned sr), script', c')"
    and "service_role_key d"
  shows "fst (GET_cards_search req a now script c d)
           = Some (json_response
               (Success \<lparr>object_tag = object_tag sr, total_cards = total_cards sr,
                         has_more = has_more sr,
                         data = fst (enrich_all uid now (data sr) d)\<rparr>) 200)
       \<and> length (fst (enrich_all uid now (data sr) d)) = length (data sr)
       \<and> (\<forall>i < length (data sr).
            enrichment_fails (snd (enrich_all uid now (take i (data sr)) d)) (data sr ! i)
            \<longrightarrow> fst (enrich_all uid now (data sr) d) ! i
                = \<lparr>scryfall_id = card_id (data sr ! i), name = card_name (data sr ! i),
                   mana_cost = card_mana_cost (data sr ! i), cmc = card_cmc (data sr ! i),
                   type_line = card_type_line (data sr ! i),
                   oracle_text = card_oracle_text (data sr ! i),
                   colors = card_colors (data sr ! i),
                   color_identity = card_color_identity (data sr ! i),
                   keyword_list = card_keywords (data sr ! i),
                   power_text = card_power (data sr ! i),
                   toughness = card_toughness (data sr ! i),
                   image_uris = card_image_uris (data sr ! i), local_image_url = None,
                   prices = Some (card_prices (data sr ! i)),
                   legalities = Some (card_legalities (data sr ! i)),
                   set_code = card_set (data sr ! i), rarity = card_rarity (data sr ! i),
                   created_at = now, updated_at = now,
                   in_collection = False, collection_quantity = 0\<rparr>)
       \<and> (\<forall>i < length (data sr).
            db_error d (SelectOwned (card_id (data sr ! i))) \<noteq> None
            \<longrightarrow> in_collection (fst (enrich_all uid now (data sr) d) ! i) = False
                \<and> collection_quantity (fst (enrich_all uid now (data sr) d) ! i) = 0)
       \<and> (\<forall>i < length (data sr). \<forall>r.
            db_error d (SelectOwned (card_id (data sr ! i))) \<noteq> None
            \<and> getCardFromCache (snd (enrich_all uid now (take i (data sr)) d))
                  (card_id (data sr ! i)) = Returned r
            \<longrightarrow> fst (enrich_all uid now (data sr) d) ! i
                = CardCache.extend r (CardSearchResult.fields False 0))
       \<and> (\<forall>i < length (data sr). \<forall>r e.
            db_error d (SelectOwned (card_id (data sr ! i))) \<noteq> None
            \<and> getCardFromCache (snd (enrich_all uid now (take i (data sr)) d))
                  (card_id (data sr ! i)) = Threw e
            \<and> fst (insertCardToCache (snd (enrich_all uid now (take i (data sr)) d))
                  (data sr ! i)) = Returned r
            \<longrightarrow> fst (enrich_all uid now (data sr) d) ! i
                = CardCache.extend r (CardSearchResult.fields False 0))"
proof (intro conjI allI impI)
  show "fst (GET_cards_search req a now script c d)
           = Some (json_response
               (Success \<lparr>object_tag = object_tag sr, total_cards = total_cards sr,
                         has_more = has_more sr,
                         data = fst (enrich_all uid now (data sr) d)\<rparr>) 200)"
    using assms by (simp add: GET_cards_search_def split: prod.splits)
  show "length (fst (enrich_all uid now (data sr) d)) = length (data sr)"
    by (rule length_enrich_all)
next
  fix i
  assume "i < length (data sr)"
    and "enrichment_fails (snd (enrich_all uid now (take i (data sr)) d)) (data sr ! i)"
  then show "fst (enrich_all uid now (data sr) d) ! i
                = \<lparr>scryfall_id = card_id (data sr ! i), name = card_name (data sr ! i),
                   mana_cost = card_mana_cost (data sr ! i), cmc = card_cmc (data sr ! i),
                   type_line = card_type_line (data sr ! i),
                   oracle_text = card_oracle_text (data sr ! i),
                   colors = card_colors (data sr ! i),
                   color_identity = card_color_identity (data sr ! i),
                   keyword_list = card_keywords (data sr ! i),
                   power_text = card_power (data sr ! i),
                   toughness = card_toughness (data sr ! i),
                   image_uris = card_image_uris (data sr ! i), local_image_url = None,
                   prices = Some (card_prices (data sr ! i)),
                   legalities = Some (card_legalities (data sr ! i)),
                   set_code = card_set (data sr ! i), rarity = card_rarity (data sr ! i),
                   created_at = now, updated_at = now,
                   in_collection = False, collection_quantity = 0\<rparr>"
    by (simp only: enrich_all_nth enrich_minimal)
next
  fix i
  assume i: "i < length (data sr)"
    and "db_error d (SelectOwned (card_id (data sr ! i))) \<noteq> None"
  then obtain msg where
    "db_error (snd (enrich_all uid now (take i (data sr)) d))
       (SelectOwned (card_id (data sr ! i))) = Some msg"
    by (auto simp: db_error_enrich_all)
  from enrich_lookup_failed[OF this] i
  show "in_collection (fst (enrich_all uid now (data sr) d) ! i) = False"
    and "collection_quantity (fst (enrich_all uid now (data sr) d) ! i) = 0"
    by (simp_all add: enrich_all_nth)
next
  fix i r
  assume i: "i < length (data sr)"
    and h: "db_error d (SelectOwned (card_id (data sr ! i))) \<noteq> None
            \<and> getCardFromCache (snd (enrich_all uid now (take i (data sr)) d))
                  (card_id (data sr ! i)) = Returned r"
  then obtain msg where
    "db_error (snd (enrich_all uid now (take i (data sr)) d))
       (SelectOwned (card_id (data sr ! i))) = Some msg"
    by (auto simp: db_error_enrich_all)
  from enrich_cached_lookup_failed[OF this] h i
  show "fst (enrich_all uid now (data sr) d) ! i
                = CardCache.extend r (CardSearchResult.fields False 0)"
    by (simp add: enrich_all_nth)
next
  fix i r e
  assume i: "i < length (data sr)"
    and h: "db_error d (SelectOwned (card_id (data sr ! i))) \<noteq> None
            \<and> getCardFromCache (snd (enrich_all uid now (take i (data sr)) d))
                  (card_id (data sr ! i)) = Threw e
            \<and> fst (insertCardToCache (snd (enrich_all uid now (take i (data sr)) d))
                  (data sr ! i)) = Returned r"
  then obtain msg where
    "db_error (snd (enrich_all uid now (take i (data sr)) d))
       (SelectOwned (card_id (data sr ! i))) = Some msg"
    by (auto simp: db_error_enrich_all)
  from enrich_written_lookup_failed[OF this] h i
  show "fst (enrich_all uid now (data sr) d) ! i
                = CardCache.extend r (CardSearchResult.fields False 0)"
    by (simp add: enrich_all_nth)
qed

theorem search_page_keeps_every_card_witness:
  "map_option http_status
     (fst (GET_cards_search bolt_request (User ''alice'') ''2024-06-02'' [three_cards] idle
        mixed_store)) = Some 200
   \<and> length (fst (enrich_all ''alice'' ''2024-06-02'' [bolt, shock, counterspell] mixed_store)) = 3
   \<and> fst (enrich_all ''alice'' ''2024-06-02'' [bolt, shock, counterspell] mixed_store) ! 0
       = CardCache.extend
           (card_columns bolt (Some ''cards/abc123.jpg'') ''2024-01-01'' ''2024-01-01'')
           (CardSearchResult.fields False 0)
   \<and> fst (enrich_all ''alice'' ''2024-06-02'' [bolt, shock, counterspell] mixed_store) ! 1
       = \<lparr>scryfall_id = ''def456'', name = ''Shock'', mana_cost = Some ''{R}'', cmc = 1,
          type_line = ''Instant'', oracle_text = None, colors = [''R''],
          color_identity = [''R''], keyword_list = None, power_text = None,
          toughness = None, image_uris = None, local_image_url = None,
          prices = Some ''{}'', legalities = Some ''{}'', set_code = ''lea'',
          rarity = ''common'', created_at = ''2024-06-02'', updated_at = ''2024-06-02'',
          in_collection = False, collection_quantity = 0\<rparr>
   \<and> fst (enrich_all ''alice'' ''2024-06-02'' [bolt, shock, counterspell] mixed_store) ! 2
       = CardCache.extend (card_columns counterspell None ''2024-06-01'' ''2024-06-01'')
           (CardSearchResult.fields False 0)"
proof -
  let ?v = "\<lparr>v_q = ''bolt'', v_page = None, v_unique = Some ''cards''\<rparr>"
  let ?sr = "\<lparr>object_tag = ''list'', total_cards = 3, has_more = False,
              data = [bolt, shock, counterspell]\<rparr>"
  let ?res = "fst (enrich_all ''alice'' ''2024-06-02'' [bolt, shock, counterspell] mixed_store)"
  have h1: "SearchCardsSchema_parse bolt_request = Inr ?v"
    by (simp add: SearchCardsSchema_parse_def bolt_request_def check_q_def
          check_search_page_def check_unique_def)
  have h2: "session_user (User ''alice'') = Some ''alice''" by simp
  have h3: "searchCards decimal (v_q ?v) \<lparr>unique = v_unique ?v, page = v_page ?v,
           include_extras = None, include_multilingual = None\<rparr> [three_cards] idle
        = (Some (Returned ?sr), [],
           \<lparr>lastRequestTime = 5000, clock = 5050,
            dispatched = [(5000, SCRYFALL_API_BASE @ ''/cards/search'',
                           [(''q'', ''bolt''), (''unique'', ''cards'')])]\<rparr>)"
    by (simp add: searchCards_def three_cards_def idle_def client_defs read_search_body_def
          search_params_def)
  have h4: "service_role_key mixed_store" by (simp add: mixed_store_def)
  have ids: "card_id bolt = ''abc123''" "card_id shock = ''def456''"
    "card_id counterspell = ''0c0c0c''"
    by (simp_all add: bolt_def shock_def counterspell_def)
  have errs: "db_error mixed_store (SelectOwned ''abc123'') = Some ''timeout''"
    "db_error mixed_store (SelectOwned ''0c0c0c'') = Some ''timeout''"
    "db_error mixed_store (UpsertCache ''def456'') = Some ''write refused''"
    "db_error mixed_store (SelectCache ''abc123'') = None"
    "db_error mixed_store (SelectCache ''def456'') = None"
    "db_error mixed_store (SelectCache ''0c0c0c'') = None"
    "db_error mixed_store (UpsertCache ''0c0c0c'') = None"
    by (simp_all add: mixed_store_def mixed_errors_def)
  have cache: "cards_cache mixed_store
      = [card_columns bolt (Some ''cards/abc123.jpg'') ''2024-01-01'' ''2024-01-01'']"
    "db_now mixed_store = ''2024-06-01''"
    by (simp_all add: mixed_store_def)
  have get0: "getCardFromCache mixed_store ''abc123''
      = Returned (card_columns bolt (Some ''cards/abc123.jpg'') ''2024-01-01'' ''2024-01-01'')"
    by (simp add: getCardFromCache_def withErrorHandling_def exec_def errs cache)
       (simp add: card_columns_def bolt_def)
  have get1: "threw (getCardFromCache mixed_store ''def456'')"
    by (simp add: getCardFromCache_def withErrorHandling_def exec_def errs cache)
       (simp add: card_columns_def bolt_def)
  have put1: "insertCardToCache mixed_store shock = (Threw ''write refused'', mixed_store)"
    by (simp add: insertCardToCache_def withErrorHandling_def errs ids)
  have get2: "getCardFromCache mixed_store ''0c0c0c''
      = Threw ''JSON object requested, multiple (or no) rows returned''"
    by (simp add: getCardFromCache_def withErrorHandling_def exec_def errs cache)
       (simp add: card_columns_def bolt_def)
  have put2: "fst (insertCardToCache mixed_store counterspell)
      = Returned (card_columns counterspell None ''2024-06-01'' ''2024-06-01'')"
    by (simp add: insertCardToCache_def withErrorHandling_def errs ids upsert_cache_def cache)
       (simp add: card_columns_def bolt_def counterspell_def)
  have e0: "snd (enrich ''alice'' ''2024-06-02'' bolt mixed_store) = mixed_store"
    by (simp add: enrich_def ids get0 Let_def)
  have e1: "snd (enrich ''alice'' ''2024-06-02'' shock mixed_store) = mixed_store"
    using get1 by (cases "getCardFromCache mixed_store ''def456''") (simp_all add: enrich_def ids put1 Let_def)
  have before: "snd (enrich_all ''alice'' ''2024-06-02'' (take 0 (data ?sr)) mixed_store) = mixed_store"
    "snd (enrich_all ''alice'' ''2024-06-02'' (take 1 (data ?sr)) mixed_store) = mixed_store"
    "snd (enrich_all ''alice'' ''2024-06-02'' (take 2 (data ?sr)) mixed_store) = mixed_store"
    by (simp_all add: enrich_all_Cons e0 e1 numeral_2_eq_2 del: enrich_all.simps(2))
  have fails: "enrichment_fails mixed_store shock"
    using get1 by (simp add: enrichment_fails_def ids put1)
  note page = search_page_keeps_every_card[OF h1 h2 h3 h4, of "''2024-06-02''"]
  from page have status: "map_option http_status
     (fst (GET_cards_search bolt_request (User ''alice'') ''2024-06-02'' [three_cards] idle
        mixed_store)) = Some 200"
    by (simp add: json_response_def)
  from page have len: "length ?res = 3" by simp
  from page have "\<forall>i<3. enrichment_fails
        (snd (enrich_all ''alice'' ''2024-06-02'' (take i (data ?sr)) mixed_store)) (data ?sr ! i)
      \<longrightarrow> ?res ! i
          = \<lparr>scryfall_id = card_id (data ?sr ! i), name = card_name (data ?sr ! i),
             mana_cost = card_mana_cost (data ?sr ! i), cmc = card_cmc (data ?sr ! i),
             type_line = card_type_line (data ?sr ! i),
             oracle_text = card_oracle_text (data ?sr ! i),
             colors = card_colors (data ?sr ! i),
             color_identity = card_color_identity (data ?sr ! i),
             keyword_list = card_keywords (data ?sr ! i),
             power_text = card_power (data ?sr ! i),
             toughness = card_toughness (data ?sr ! i),
             image_uris = card_image_uris (data ?sr ! i), local_image_url = None,
             prices = Some (card_prices (data ?sr ! i)),
             legalities = Some (card_legalities (data ?sr ! i)),
             set_code = card_set (data ?sr ! i), rarity = card_rarity (data ?sr ! i),
             created_at = ''2024-06-02'', updated_at = ''2024-06-02'',
             in_collection = False, collection_quantity = 0\<rparr>"
    by simp
  from this[rule_format, of 1] fails before(2)
  have r1: "?res ! 1
       = \<lparr>scryfall_id = ''def456'', name = ''Shock'', mana_cost = Some ''{R}'', cmc = 1,
          type_line = ''Instant'', oracle_text = None, colors = [''R''],
          color_identity = [''R''], keyword_list = None, power_text = None,
          toughness = None, image_uris = None, local_image_url = None,
          prices = Some ''{}'', legalities = Some ''{}'', set_code = ''lea'',
          rarity = ''common'', created_at = ''2024-06-02'', updated_at = ''2024-06-02'',
          in_collection = False, collection_quantity = 0\<rparr>"
    by (simp add: shock_def bolt_def)
  from page have "\<forall>i<3. \<forall>r. db_error mixed_store (SelectOwned (card_id (data ?sr ! i))) \<noteq> None
        \<and> getCardFromCache (snd (enrich_all ''alice'' ''2024-06-02'' (take i (data ?sr)) mixed_store))
             (card_id (data ?sr ! i)) = Returned r
      \<longrightarrow> ?res ! i = CardCache.extend r (CardSearchResult.fields False 0)"
    by simp
  from this[rule_format, of 0] before(1) get0 errs(1)
  have r0: "?res ! 0 = CardCache.extend
           (card_columns bolt (Some ''cards/abc123.jpg'') ''2024-01-01'' ''2024-01-01'')
           (CardSearchResult.fields False 0)"
    by (simp add: ids)
  from page have "\<forall>i<3. \<forall>r e. db_error mixed_store (SelectOwned (card_id (data ?sr ! i))) \<noteq> None
        \<and> getCardFromCache (snd (enrich_all ''alice'' ''2024-06-02'' (take i (data ?sr)) mixed_store))
             (card_id (data ?sr ! i)) = Threw e
        \<and> fst (insertCardToCache
                  (snd (enrich_all ''alice'' ''2024-06-02'' (take i (data ?sr)) mixed_store))
                  (data ?sr ! i)) = Returned r
      \<longrightarrow> ?res ! i = CardCache.extend r (CardSearchResult.fields False 0)"
    by simp
  from this[rule_format, of 2] before(3) get2 put2 errs(2)
  have r2: "?res ! 2 = CardCache.extend (card_columns counterspell None ''2024-06-01'' ''2024-06-01'')
           (CardSearchResult.fields False 0)"
    by (simp add: ids)
  from status len r0 r1 r2 show ?thesis by simp
qed

section \<open>The collection search route: properties\<close>

lemmas check_defs = check_cmc_def check_rarity_def check_enum_def check_page_def check_limit_def

lemma parse_one_per_page:
  "1 \<le> p \<Longrightarrow> SearchCollectionSchema_parse (one_per_page p) = Inr (validated_one_per_page p)"
  by (simp add: SearchCollectionSchema_parse_def one_per_page_def validated_one_per_page_def check_defs)

lemma no_filters_one_per_page:
  "query_filters (validated_one_per_page p) = [] \<and> countQuery_filters (validated_one_per_page p) = []"
  by (simp add: query_filters_def countQuery_filters_def validated_one_per_page_def
        opt_text_filter_def opt_list_filter_def opt_num_filter_def)

lemma matching_three_entries:
  "matching accept_all (three_entries err) ''alice'' [] =
     [(entry ''r1'' ''alice'' ''abc123'' 1 False None, None),
      (entry ''r2'' ''alice'' ''def456'' 1 False None, None),
      (entry ''r3'' ''alice'' ''0a0a0a'' 1 False None, None)]"
  by (simp add: matching_def three_entries_def visible_def entry_def join_card_def)

lemma fields_one_per_page:
  "vc_page (validated_one_per_page p) = p \<and> vc_limit (validated_one_per_page p) = 1
   \<and> vc_sort (validated_one_per_page p) = ''name''
   \<and> vc_order (validated_one_per_page p) = ''asc''"
  by (simp add: validated_one_per_page_def)

lemma ordered_accept_all: "ordered accept_all col asc rows = rows"
  by (simp add: accept_all_def)

lemma errors_count_down:
  "db_error (three_entries count_down) SelectCollection = None
   \<and> db_error (three_entries count_down) CountCollection = Some ''timeout''"
  by (simp add: three_entries_def count_down_def)

lemma errors_healthy: "db_error (three_entries healthy) op = None"
  by (simp add: three_entries_def healthy_def)

text \<open>
  C5, as stated, fails where the count query fails. The route only logs the error of the
  count query and goes on with a total of 0: with three matching rows, page 1 and limit
  1, the answer has \<open>hasMore\<close> false although the count of the matching rows, 3, is
  greater than 1 times 1.
\<close>

theorem hasMore_is_false_when_the_count_fails:
  "GET_collection_search accept_all (one_per_page 1) (User ''alice'') (three_entries count_down)
     = json_response
         (Success \<lparr>page_data = [(entry ''r1'' ''alice'' ''abc123'' 1 False None, None)],
                   pagination_page = 1, pagination_limit = 1, pagination_total = 0,
                   pagination_hasMore = False\<rparr>) 200
   \<and> int (length (matching accept_all (three_entries count_down) ''alice''
              (countQuery_filters (validated_one_per_page 1)))) > 1 * 1"
  by (simp add: GET_collection_search_def parse_one_per_page select_page_def select_count_def
        exec_def no_filters_one_per_page matching_three_entries range_rows_def Let_def
        fields_one_per_page ordered_accept_all errors_count_down)

text \<open>The two constructions of the filters give the same filters.\<close>

lemma countQuery_filters_same: "countQuery_filters v = query_filters v"
  by (simp add: countQuery_filters_def query_filters_def)

lemma validated_page_and_limit:
  assumes "SearchCollectionSchema_parse req = Inr v"
  shows "1 \<le> vc_page v \<and> 1 \<le> vc_limit v \<and> vc_limit v \<le> 100"
proof -
  from assms have "check_page (cr_page req) = Inr (vc_page v)
      \<and> check_limit (cr_limit req) = Inr (vc_limit v)"
    by (auto simp: SearchCollectionSchema_parse_def split: sum.splits)
  then show ?thesis
    by (auto simp: check_page_def check_limit_def split: number.splits if_splits)
qed

text \<open>
  C5, amended. For a validated search (page \<open>p\<close> at least 1, limit \<open>n\<close> from 1 to 100) of an
  authenticated user whose data query succeeds, the answer is 200; its data are the
  matching rows of the user, in the order asked for, from offset \<open>(p - 1) * n\<close> on and at
  most \<open>n\<close> of them; and \<open>hasMore\<close> is \<open>total > p * n\<close> for the total of the answer,
  which is the count of all rows matching the same filters when the count query
  succeeds and 0 when it fails.
\<close>

theorem collection_page_window_and_hasMore:
  assumes "SearchCollectionSchema_parse req = Inr v"
    and "session_user a = Some uid"
    and "db_error d SelectCollection = None"
  shows "GET_collection_search sem req a d
           = json_response
               (Success
                 \<lparr>page_data =
                    take (nat (vc_limit v))
                      (drop (nat ((vc_page v - 1) * vc_limit v))
                        (ordered sem (sortColumn (vc_sort v)) (vc_order v = ''asc'')
                          (matching sem d uid (query_filters v)))),
                  pagination_page = vc_page v,
                  pagination_limit = vc_limit v,
                  pagination_total =
                    (case db_error d CountCollection of
                       None \<Rightarrow> int (length (matching sem d uid (query_filters v)))
                     | Some msg \<Rightarrow> 0),
                  pagination_hasMore =
                    ((case db_error d CountCollection of
                        None \<Rightarrow> int (length (matching sem d uid (query_filters v)))
                      | Some msg \<Rightarrow> 0) > vc_page v * vc_limit v)\<rparr>) 200
       \<and> length (take (nat (vc_limit v))
                   (drop (nat ((vc_page v - 1) * vc_limit v))
                     (ordered sem (sortColumn (vc_sort v)) (vc_order v = ''asc'')
                       (matching sem d uid (query_filters v))))) \<le> nat (vc_limit v)
       \<and> 1 \<le> vc_page v \<and> 1 \<le> vc_limit v \<and> vc_limit v \<le> 100"
proof -
  have page: "select_page sem d uid v
      = Data (take (nat (vc_limit v))
               (drop (nat ((vc_page v - 1) * vc_limit v))
                 (ordered sem (sortColumn (vc_sort v)) (vc_order v = ''asc'')
                   (matching sem d uid (query_filters v)))))"
    using assms(3) by (simp add: select_page_def exec_def range_rows_def Let_def)
  have count: "data_of (select_count sem d uid v)
      = (case db_error d CountCollection of
           None \<Rightarrow> Some (int (length (matching sem d uid (query_filters v))))
         | Some msg \<Rightarrow> None)"
    by (simp add: select_count_def exec_def countQuery_filters_same split: option.splits)
  have "GET_collection_search sem req a d
           = json_response
               (Success
                 \<lparr>page_data =
                    take (nat (vc_limit v))
                      (drop (nat ((vc_page v - 1) * vc_limit v))
                        (ordered sem (sortColumn (vc_sort v)) (vc_order v = ''asc'')
                          (matching sem d uid (query_filters v)))),
                  pagination_page = vc_page v,
                  pagination_limit = vc_limit v,
                  pagination_total =
                    (case db_error d CountCollection of
                       None \<Rightarrow> int (length (matching sem d uid (query_filters v)))
                     | Some msg \<Rightarrow> 0),
                  pagination_hasMore =
                    ((case db_error d CountCollection of
                        None \<Rightarrow> int (length (matching sem d uid (query_filters v)))
                      | Some msg \<Rightarrow> 0) > vc_page v * vc_limit v)\<rparr>) 200"
    using assms(1,2) by (simp add: GET_collection_search_def page count Let_def split: option.splits)
  then show ?thesis using validated_page_and_limit[OF assms(1)] by simp
qed

theorem collection_page_window_and_hasMore_witness:
  "GET_collection_search accept_all (one_per_page 2) (User ''alice'') (three_entries healthy)
     = json_response
         (Success \<lparr>page_data = [(entry ''r2'' ''alice'' ''def456'' 1 False None, None)],
                   pagination_page = 2, pagination_limit = 1, pagination_total = 3,
                   pagination_hasMore = True\<rparr>) 200"
proof -
  have h1: "SearchCollectionSchema_parse (one_per_page 2) = Inr (validated_one_per_page 2)"
    by (simp add: parse_one_per_page)
  have h2: "session_user (User ''alice'') = Some ''alice''" by simp
  have h3: "db_error (three_entries healthy) SelectCollection = None"
    by (simp add: errors_healthy)
  from collection_page_window_and_hasMore[OF h1 h2 h3, of accept_all]
  show ?thesis
    by (simp add: errors_healthy no_filters_one_per_page matching_three_entries
          fields_one_per_page ordered_accept_all)
qed

section \<open>The collection add route: properties\<close>

lemma same_id_same_row:
  assumes "distinct (map entry_id rows)" and "r \<in> set rows" and "e \<in> set rows"
    and "entry_id r = entry_id e"
  shows "r = e"
  using assms by (meson distinct_map inj_on_def)

lemma visible_same_entry:
  "filter (\<lambda>r. visible uid r \<and> same_entry uid v r) rows = filter (same_entry uid v) rows"
  by (rule filter_cong) (auto simp: same_entry_def visible_def)

lemma existing_card_found:
  assumes "db_error d SelectExisting = None"
    and "filter (same_entry uid v) (collection_cards d) = [e]"
  shows "existing_card d uid v = Some e"
  using assms by (simp add: existing_card_def exec_def visible_same_entry)

lemma existing_card_absent:
  assumes "filter (same_entry uid v) (collection_cards d) = []"
  shows "existing_card d uid v = None"
  using assms by (simp add: existing_card_def exec_def visible_same_entry split: option.splits)

lemma in_filter_singleton: "filter P xs = [e] \<Longrightarrow> e \<in> set xs \<and> P e"
  by (metis list.set_intros(1) mem_Collect_eq set_filter)

lemma filter_the_row:
  "distinct xs \<Longrightarrow> e \<in> set xs \<Longrightarrow> filter (\<lambda>r. r = e) xs = [e]"
  by (induction xs) (auto simp: filter_empty_conv)

lemma merged_keys:
  "entry_id (merged v e r) = entry_id r \<and> user_id (merged v e r) = user_id r"
  by (simp add: merged_def)

text \<open>The table after the update, when the ids are distinct: only the row read is written.\<close>

lemma update_entry_table:
  assumes "db_error d (UpdateCollection (entry_id e)) = None"
    and "distinct (map entry_id (collection_cards d))"
    and "e \<in> set (collection_cards d)" and "user_id e = uid"
  shows "update_entry d uid v e =
     (Data (join_card (d\<lparr>collection_cards :=
                map (\<lambda>r. if r = e then merged v e e else r) (collection_cards d)\<rparr>) (merged v e e)),
      d\<lparr>collection_cards := map (\<lambda>r. if r = e then merged v e e else r) (collection_cards d)\<rparr>)"
proof -
  let ?hit = "\<lambda>r. visible uid r \<and> entry_id r = entry_id e"
  let ?upd = "\<lambda>r. if ?hit r then merged v e r else r"
  have hit_iff: "?hit r \<longleftrightarrow> r = e" if "r \<in> set (collection_cards d)" for r
    using that assms(2,3,4) same_id_same_row[of "collection_cards d" r e]
    by (auto simp: visible_def)
  have table: "map ?upd (collection_cards d)
      = map (\<lambda>r. if r = e then merged v e e else r) (collection_cards d)"
    by (rule map_cong) (auto simp: hit_iff)
  have hit_upd: "?hit (?upd r) = ?hit r" for r
    by (simp add: merged_keys visible_def)
  have "filter ?hit (map ?upd (collection_cards d)) = map ?upd (filter ?hit (collection_cards d))"
    by (simp add: filter_map o_def hit_upd)
  also have "filter ?hit (collection_cards d) = filter (\<lambda>r. r = e) (collection_cards d)"
    by (rule filter_cong) (auto simp: hit_iff)
  also have "\<dots> = [e]"
    using assms(2,3) by (simp add: filter_the_row distinct_map)
  finally have written: "filter ?hit (map ?upd (collection_cards d)) = [merged v e e]"
    using assms(3,4) by (simp add: visible_def)
  show ?thesis
    unfolding update_entry_def Let_def table
    using assms(1) written[unfolded table] by simp
qed

lemma find_of_filter: "filter P xs = y # ys \<Longrightarrow> find P xs = Some y"
  by (induction xs) (auto split: if_splits)

lemma find_written:
  assumes "e \<in> set xs" and "\<forall>r\<in>set xs. f r = f e \<longrightarrow> r = e" and "f w = f e"
  shows "find (\<lambda>r. f r = f e) (map (\<lambda>r. if r = e then w else r) xs) = Some w"
  using assms by (induction xs) auto

lemma card_exists_found:
  assumes "db_error d (SelectCardExists sid) = None"
    and "filter (\<lambda>c. scryfall_id c = sid) (cards_cache d) = [c]"
  shows "card_exists d sid = Data sid"
  using assms in_filter_singleton[OF assms(2)] by (simp add: card_exists_def exec_def)

lemma post_merges:
  assumes "AddToCollectionSchema_parse b = Inr v" and "session_user a = Some uid"
    and "card_exists d (a_scryfall_id v) = Data x"
    and "db_error d SelectExisting = None"
    and "filter (same_entry uid v) (collection_cards d) = [e]"
    and "db_error d (UpdateCollection (entry_id e)) = None"
    and "distinct (map entry_id (collection_cards d))"
  shows "POST_collection_add (Object b) a d =
     (json_response
        (Success (join_card (d\<lparr>collection_cards :=
                    map (\<lambda>r. if r = e then merged v e e else r) (collection_cards d)\<rparr>)
                  (merged v e e))) 200,
      d\<lparr>collection_cards := map (\<lambda>r. if r = e then merged v e e else r) (collection_cards d)\<rparr>)"
proof -
  from in_filter_singleton[OF assms(5)]
  have e: "e \<in> set (collection_cards d)" "user_id e = uid" by (simp_all add: same_entry_def)
  show ?thesis
    using assms(1,2,3)
    by (simp add: POST_collection_add_def existing_card_found[OF assms(4,5)]
          update_entry_table[OF assms(6,7) e])
qed

lemma post_inserts:
  assumes "AddToCollectionSchema_parse b = Inr v" and "session_user a = Some uid"
    and "card_exists d (a_scryfall_id v) = Data x"
    and "filter (same_entry uid v) (collection_cards d) = []"
    and "db_error d InsertCollection = None"
  shows "POST_collection_add (Object b) a d =
     (json_response
        (Success (join_card d
           \<lparr>entry_id = fresh_id d, user_id = uid, entry_scryfall_id = a_scryfall_id v,
            quantity = a_quantity v, condition = a_condition v, foil = a_foil v,
            entry_notes = a_notes v, added_at = db_now d, entry_updated_at = db_now d\<rparr>)) 200,
      d\<lparr>collection_cards := collection_cards d @
           [\<lparr>entry_id = fresh_id d, user_id = uid, entry_scryfall_id = a_scryfall_id v,
             quantity = a_quantity v, condition = a_condition v, foil = a_foil v,
             entry_notes = a_notes v, added_at = db_now d, entry_updated_at = db_now d\<rparr>]\<rparr>)"
proof -
  let ?row = "\<lparr>entry_id = fresh_id d, user_id = uid, entry_scryfall_id = a_scryfall_id v,
            quantity = a_quantity v, condition = a_condition v, foil = a_foil v,
            entry_notes = a_notes v, added_at = db_now d, entry_updated_at = db_now d\<rparr>"
  have "same_key ?row = same_entry uid v"
    by (auto simp: same_key_def same_entry_def fun_eq_iff)
  then have free: "\<not> list_ex (same_key ?row) (collection_cards d)"
    using assms(4) by (simp add: list_ex_iff filter_empty_conv)
  have ins: "insert_entry d uid v = (Data (join_card d ?row),
      d\<lparr>collection_cards := collection_cards d @ [?row]\<rparr>)"
    using assms(5) free by (simp add: insert_entry_def Let_def)
  show ?thesis
    using assms(1,2,3)
    by (simp add: POST_collection_add_def existing_card_absent[OF assms(4)] ins)
qed

text \<open>
  C2. A validated add by an authenticated user for a card that is in the cache. When
  exactly one entry of the table has the user, card, condition and foil of the request
  (and the ids of the table are distinct), the route answers 200, the table has the same
  rows by id as before, and the quantity of that entry is its old quantity plus the
  requested one. When no entry has these four values, the route answers 200 and the table
  is the old table followed by one new row with the values of the request.
\<close>

theorem add_merges_or_inserts:
  assumes "AddToCollectionSchema_parse b = Inr v" and "session_user a = Some uid"
    and "card_exists d (a_scryfall_id v) = Data x"
  shows "(db_error d SelectExisting = None
          \<and> filter (same_entry uid v) (collection_cards d) = [e]
          \<and> db_error d (UpdateCollection (entry_id e)) = None
          \<and> distinct (map entry_id (collection_cards d))
          \<longrightarrow> http_status (fst (POST_collection_add (Object b) a d)) = 200
              \<and> map entry_id (collection_cards (snd (POST_collection_add (Object b) a d)))
                  = map entry_id (collection_cards d)
              \<and> map_option quantity
                   (find (\<lambda>r. entry_id r = entry_id e)
                      (collection_cards (snd (POST_collection_add (Object b) a d))))
                  = Some (quantity e + a_quantity v))
       \<and> (filter (same_entry uid v) (collection_cards d) = []
          \<and> db_error d InsertCollection = None
          \<longrightarrow> http_status (fst (POST_collection_add (Object b) a d)) = 200
              \<and> collection_cards (snd (POST_collection_add (Object b) a d))
                  = collection_cards d @
                    [\<lparr>entry_id = fresh_id d, user_id = uid,
                      entry_scryfall_id = a_scryfall_id v, quantity = a_quantity v,
                      condition = a_condition v, foil = a_foil v, entry_notes = a_notes v,
                      added_at = db_now d, entry_updated_at = db_now d\<rparr>])"
proof (intro conjI impI)
  assume h: "db_error d SelectExisting = None
          \<and> filter (same_entry uid v) (collection_cards d) = [e]
          \<and> db_error d (UpdateCollection (entry_id e)) = None
          \<and> distinct (map entry_id (collection_cards d))"
  then have post: "POST_collection_add (Object b) a d =
     (json_response
        (Success (join_card (d\<lparr>collection_cards :=
                    map (\<lambda>r. if r = e then merged v e e else r) (collection_cards d)\<rparr>)
                  (merged v e e))) 200,
      d\<lparr>collection_cards := map (\<lambda>r. if r = e then merged v e e else r) (collection_cards d)\<rparr>)"
    using post_merges[OF assms] by blast
  show "http_status (fst (POST_collection_add (Object b) a d)) = 200"
    by (simp add: post json_response_def)
  show "map entry_id (collection_cards (snd (POST_collection_add (Object b) a d)))
          = map entry_id (collection_cards d)"
    by (simp add: post merged_keys o_def if_distrib cong: if_cong)
  from h have e: "e \<in> set (collection_cards d)" and dist: "distinct (collection_cards d)"
    using in_filter_singleton[of "same_entry uid v" "collection_cards d" e]
    by (simp_all add: distinct_map)
  have "find (\<lambda>r. entry_id r = entry_id e)
          (map (\<lambda>r. if r = e then merged v e e else r) (collection_cards d))
        = Some (merged v e e)"
    using e h by (intro find_written) (auto dest: same_id_same_row simp: merged_keys)
  then show "map_option quantity
                   (find (\<lambda>r. entry_id r = entry_id e)
                      (collection_cards (snd (POST_collection_add (Object b) a d))))
                  = Some (quantity e + a_quantity v)"
    by (simp add: post merged_def)
next
  assume h: "filter (same_entry uid v) (collection_cards d) = []
          \<and> db_error d InsertCollection = None"
  show "http_status (fst (POST_collection_add (Object b) a d)) = 200"
    using h by (simp add: post_inserts[OF assms] json_response_def)
  show "collection_cards (snd (POST_collection_add (Object b) a d))
                  = collection_cards d @
                    [\<lparr>entry_id = fresh_id d, user_id = uid,
                      entry_scryfall_id = a_scryfall_id v, quantity = a_quantity v,
                      condition = a_condition v, foil = a_foil v, entry_notes = a_notes v,
                      added_at = db_now d, entry_updated_at = db_now d\<rparr>]"
    using h by (simp add: post_inserts[OF assms])
qed

text \<open>The concrete request and store of the witnesses.\<close>

lemma bolt_uuid_ok: "is_uuid bolt_uuid"
  by (simp add: is_uuid_def bolt_uuid_def is_hex_def)

lemma parse_add_request:
  "1 \<le> n \<Longrightarrow> n \<le> 100 \<Longrightarrow> (case nt of Some s \<Rightarrow> length s \<le> 500 | None \<Rightarrow> True) \<Longrightarrow>
   AddToCollectionSchema_parse (add_request n fl nt) = Inr (added n fl nt)"
  by (cases nt)
     (simp_all add: AddToCollectionSchema_parse_def add_request_def added_def check_scryfall_id_def
        check_quantity_def check_condition_def check_foil_def check_notes_def bolt_uuid_ok)

lemma signed_bolt_facts:
  "card_exists signed_bolt bolt_uuid = Data bolt_uuid"
  "db_error signed_bolt op = None"
  "distinct (map entry_id (collection_cards signed_bolt))"
  "filter (same_entry ''alice'' (added n False nt)) (collection_cards signed_bolt)
     = [entry ''r1'' ''alice'' bolt_uuid 2 False (Some ''signed'')]"
  "filter (same_entry ''alice'' (added n True nt)) (collection_cards signed_bolt) = []"
  "fresh_id signed_bolt = ''r9''" "db_now signed_bolt = ''2024-06-01''"
  by (simp_all add: signed_bolt_def card_exists_def exec_def healthy_def card_columns_def
        entry_def same_entry_def added_def bolt_def)

lemma signed_bolt_table:
  "collection_cards signed_bolt = [entry ''r1'' ''alice'' bolt_uuid 2 False (Some ''signed''),
                                   entry ''r2'' ''bob'' bolt_uuid 5 False None]"
  by (simp add: signed_bolt_def)

theorem add_merges_or_inserts_witness:
  "map_option quantity
     (find (\<lambda>r. entry_id r = ''r1'')
        (collection_cards (snd (POST_collection_add (Object (add_request 3 False None))
           (User ''alice'') signed_bolt)))) = Some 5
   \<and> map entry_id (collection_cards (snd (POST_collection_add (Object (add_request 3 False None))
           (User ''alice'') signed_bolt))) = [''r1'', ''r2'']
   \<and> map entry_id (collection_cards (snd (POST_collection_add (Object (add_request 1 True None))
           (User ''alice'') signed_bolt))) = [''r1'', ''r2'', ''r9'']"
proof -
  have sess: "session_user (User ''alice'') = Some ''alice''" by simp
  have p1: "AddToCollectionSchema_parse (add_request 3 False None) = Inr (added 3 False None)"
    by (simp add: parse_add_request)
  have p2: "AddToCollectionSchema_parse (add_request 1 True None) = Inr (added 1 True None)"
    by (simp add: parse_add_request)
  have c1: "card_exists signed_bolt (a_scryfall_id (added 3 False None)) = Data bolt_uuid"
    by (simp add: added_def signed_bolt_facts)
  have c2: "card_exists signed_bolt (a_scryfall_id (added 1 True None)) = Data bolt_uuid"
    by (simp add: added_def signed_bolt_facts)
  from add_merges_or_inserts[OF p1 sess c1,
         of "entry ''r1'' ''alice'' bolt_uuid 2 False (Some ''signed'')"]
  have merge: "map entry_id (collection_cards (snd (POST_collection_add
           (Object (add_request 3 False None)) (User ''alice'') signed_bolt)))
        = map entry_id (collection_cards signed_bolt)
      \<and> map_option quantity
           (find (\<lambda>r. entry_id r = ''r1'')
              (collection_cards (snd (POST_collection_add (Object (add_request 3 False None))
                 (User ''alice'') signed_bolt)))) = Some (2 + 3)"
    by (simp add: signed_bolt_facts) (simp add: entry_def added_def)
  from add_merges_or_inserts[OF p2 sess c2]
  have ins: "collection_cards (snd (POST_collection_add (Object (add_request 1 True None))
           (User ''alice'') signed_bolt))
        = collection_cards signed_bolt @
            [\<lparr>entry_id = ''r9'', user_id = ''alice'', entry_scryfall_id = bolt_uuid,
              quantity = 1, condition = ''near_mint'', foil = True, entry_notes = None,
              added_at = ''2024-06-01'', entry_updated_at = ''2024-06-01''\<rparr>]"
    by (simp add: signed_bolt_facts) (simp add: added_def)
  from merge ins show ?thesis
    by (simp add: signed_bolt_table entry_def)
qed

text \<open>
  C10, as stated, fails for notes that are provided and empty: the schema accepts the
  empty string, and the route takes the requested notes only when they are truthy, so the
  entry keeps its old notes where the claim has them replaced by the requested ones.
\<close>

theorem empty_notes_do_not_replace_the_old_notes:
  "map entry_notes (collection_cards (snd (POST_collection_add
       (Object (add_request 3 False (Some ''''))) (User ''alice'') signed_bolt)))
     = [Some ''signed'', None]
   \<and> AddToCollectionSchema_parse (add_request 3 False (Some ''''))
       = Inr (added 3 False (Some ''''))"
proof -
  let ?v = "added 3 False (Some '''')"
  have sess: "session_user (User ''alice'') = Some ''alice''" by simp
  have p: "AddToCollectionSchema_parse (add_request 3 False (Some '''')) = Inr ?v"
    by (simp add: parse_add_request)
  have c: "card_exists signed_bolt (a_scryfall_id ?v) = Data bolt_uuid"
    by (simp add: added_def signed_bolt_facts)
  have f: "filter (same_entry ''alice'' ?v) (collection_cards signed_bolt)
             = [entry ''r1'' ''alice'' bolt_uuid 2 False (Some ''signed'')]"
    by (simp add: signed_bolt_facts)
  have "collection_cards (snd (POST_collection_add (Object (add_request 3 False (Some '''')))
           (User ''alice'') signed_bolt))
      = [entry ''r1'' ''alice'' bolt_uuid 5 False (Some ''signed''),
         entry ''r2'' ''bob'' bolt_uuid 5 False None]"
    by (simp add: post_merges[OF p sess c signed_bolt_facts(2) f signed_bolt_facts(2)
            signed_bolt_facts(3)] signed_bolt_table)
       (simp add: entry_def added_def merged_def)
  then show ?thesis using p by (simp add: entry_def)
qed

text \<open>
  C10, amended. When an add merges into the existing entry \<open>e\<close>, the table afterwards is the
  table before with \<open>e\<close> replaced by \<open>e\<close> with two fields written, and every other row as
  it was: the quantity is the old quantity plus the requested one, and the notes are the
  requested notes when these are provided and not empty, the old notes otherwise. All
  other fields of the entry (id, user, card, condition, foil, timestamps) are those of
  \<open>e\<close>, and the cache table is not written.
\<close>

theorem merge_writes_quantity_and_notes_only:
  assumes "AddToCollectionSchema_parse b = Inr v" and "session_user a = Some uid"
    and "card_exists d (a_scryfall_id v) = Data x"
    and "db_error d SelectExisting = None"
    and "filter (same_entry uid v) (collection_cards d) = [e]"
    and "db_error d (UpdateCollection (entry_id e)) = None"
    and "distinct (map entry_id (collection_cards d))"
  shows "collection_cards (snd (POST_collection_add (Object b) a d))
           = map (\<lambda>r. if r = e
                       then e\<lparr>quantity := quantity e + a_quantity v,
                              entry_notes :=
                                (case a_notes v of
                                   Some n \<Rightarrow> if n \<noteq> [] then Some n else entry_notes e
                                 | None \<Rightarrow> entry_notes e)\<rparr>
                       else r) (collection_cards d)
       \<and> cards_cache (snd (POST_collection_add (Object b) a d)) = cards_cache d"
  by (simp add: post_merges[OF assms] merged_def)

theorem merge_writes_quantity_and_notes_only_witness:
  "collection_cards (snd (POST_collection_add (Object (add_request 3 False (Some ''played once'')))
       (User ''alice'') signed_bolt))
     = [entry ''r1'' ''alice'' bolt_uuid 5 False (Some ''played once''),
        entry ''r2'' ''bob'' bolt_uuid 5 False None]"
proof -
  let ?v = "added 3 False (Some ''played once'')"
  have sess: "session_user (User ''alice'') = Some ''alice''" by simp
  have p: "AddToCollectionSchema_parse (add_request 3 False (Some ''played once'')) = Inr ?v"
    by (simp add: parse_add_request)
  have c: "card_exists signed_bolt (a_scryfall_id ?v) = Data bolt_uuid"
    by (simp add: added_def signed_bolt_facts)
  have f: "filter (same_entry ''alice'' ?v) (collection_cards signed_bolt)
             = [entry ''r1'' ''alice'' bolt_uuid 2 False (Some ''signed'')]"
    by (simp add: signed_bolt_facts)
  from merge_writes_quantity_and_notes_only[OF p sess c signed_bolt_facts(2) f
         signed_bolt_facts(2) signed_bolt_facts(3)]
  show ?thesis
    by (simp add: signed_bolt_table) (simp add: entry_def added_def)
qed

section \<open>Status codes of the three routes\<close>

text \<open>
  C7, as stated, fails for a call that has no session and does not validate: every route
  validates before it looks at the session, so such a call is answered 400 and not 401.
\<close>

theorem invalid_request_without_session_gets_400:
  "fst (GET_cards_search no_query NoUser ''2024-06-02'' [] idle empty_cache)
     = Some (json_response
         (Invalid ''Invalid request parameters'' [Issue [Key ''q''] ''invalid_type'']) 400)
   \<and> session_user NoUser = None"
  by (simp add: GET_cards_search_def SearchCardsSchema_parse_def no_query_def check_q_def
        check_search_page_def check_unique_def issues_of_def caught_def)

text \<open>
  Not every failure is answered 500 either. The add route answers a card lookup that the
  store fails with 404, like a card that is not in the cache; and the collection search
  only logs a count query that fails and answers 200.
\<close>

lemma failed_card_lookup_gets_404:
  "card_exists (signed_bolt\<lparr>db_error := store_down\<rparr>) bolt_uuid = Error ''connection refused''
   \<and> fst (POST_collection_add (Object (add_request 3 False None)) (User ''alice'')
            (signed_bolt\<lparr>db_error := store_down\<rparr>))
       = json_response (Failure ''Card not found in database'') 404"
proof -
  have p: "AddToCollectionSchema_parse (add_request 3 False None) = Inr (added 3 False None)"
    by (simp add: parse_add_request)
  have c: "card_exists (signed_bolt\<lparr>db_error := store_down\<rparr>) bolt_uuid
             = Error ''connection refused''"
    by (simp add: card_exists_def exec_def store_down_def)
  show ?thesis
    using c by (simp add: POST_collection_add_def p added_def)
qed

lemma failed_count_still_gets_200:
  "select_count accept_all (three_entries count_down) ''alice'' (validated_one_per_page 1)
     = Error ''timeout''
   \<and> http_status (GET_collection_search accept_all (one_per_page 1) (User ''alice'')
        (three_entries count_down)) = 200"
  by (simp add: GET_collection_search_def parse_one_per_page select_page_def select_count_def
        exec_def errors_count_down Let_def json_response_def)

subsection \<open>Validation\<close>

lemma search_issues_nonempty: "SearchCardsSchema_parse r = Inl issues \<Longrightarrow> issues \<noteq> []"
  by (auto simp: SearchCardsSchema_parse_def issues_of_def split: sum.splits)

lemma rarity_issues:
  assumes "check_rarity v = Inl issues"
  shows "issues \<noteq> [] \<and> about_fields [''rarity''] issues"
  using assms
  by (cases v)
     (auto simp: check_rarity_def Let_def about_fields_def list_all_iff split: if_splits)

lemma own_issues_simps: "own_issues (Inl issues) = issues" "own_issues (Inr v) = []"
  by (simp_all add: own_issues_def)

lemma collection_issues_nonempty:
  "SearchCollectionSchema_parse r = Inl issues \<Longrightarrow> issues \<noteq> []"
  by (auto simp: SearchCollectionSchema_parse_def issues_of_def own_issues_simps
        dest: rarity_issues split: sum.splits)

lemma add_issues_nonempty: "AddToCollectionSchema_parse r = Inl issues \<Longrightarrow> issues \<noteq> []"
  by (auto simp: AddToCollectionSchema_parse_def issues_of_def split: sum.splits)

lemma about_fields_append:
  "about_fields keys (xs @ ys) = (about_fields keys xs \<and> about_fields keys ys)"
  by (simp add: about_fields_def)

lemma about_fields_issues_of:
  "k \<in> set keys \<Longrightarrow> about_fields keys (issues_of k r)"
  by (auto simp: about_fields_def issues_of_def split: sum.splits)

lemma about_fields_Nil: "about_fields keys []"
  by (simp add: about_fields_def)

lemma about_fields_rarity:
  assumes "check_rarity v = Inl issues" and "''rarity'' \<in> set keys"
  shows "about_fields keys issues"
  using rarity_issues[OF assms(1)] assms(2)
  by (auto simp: about_fields_def list_all_iff)

lemma search_issues_fields:
  "SearchCardsSchema_parse r = Inl issues \<Longrightarrow> about_fields [''q'', ''page'', ''unique''] issues"
  by (auto simp: SearchCardsSchema_parse_def about_fields_append about_fields_issues_of
        split: sum.splits)

lemma about_fields_own:
  assumes "''rarity'' \<in> set keys"
  shows "about_fields keys (own_issues (check_rarity v))"
  by (cases "check_rarity v")
     (simp_all add: own_issues_simps about_fields_Nil about_fields_rarity[OF _ assms])

lemma collection_issues_fields:
  assumes "SearchCollectionSchema_parse r = Inl issues"
  shows "about_fields [''cmc_min'', ''cmc_max'', ''rarity'', ''sort'', ''order'', ''page'',
           ''limit''] issues"
proof -
  have all: "about_fields [''cmc_min'', ''cmc_max'', ''rarity'', ''sort'', ''order'', ''page'',
           ''limit'']
      (issues_of ''cmc_min'' (check_cmc (cr_cmc_min r))
       @ issues_of ''cmc_max'' (check_cmc (cr_cmc_max r))
       @ own_issues (check_rarity (cr_rarity r))
       @ issues_of ''sort'' (check_enum [''name'', ''cmc'', ''rarity'', ''set'', ''added_at'']
           (cr_sort r))
       @ issues_of ''order'' (check_enum [''asc'', ''desc''] (cr_order r))
       @ issues_of ''page'' (check_page (cr_page r))
       @ issues_of ''limit'' (check_limit (cr_limit r)))"
    by (simp add: about_fields_append about_fields_issues_of about_fields_own)
  from assms have "issues =
       issues_of ''cmc_min'' (check_cmc (cr_cmc_min r))
       @ issues_of ''cmc_max'' (check_cmc (cr_cmc_max r))
       @ own_issues (check_rarity (cr_rarity r))
       @ issues_of ''sort'' (check_enum [''name'', ''cmc'', ''rarity'', ''set'', ''added_at'']
           (cr_sort r))
       @ issues_of ''order'' (check_enum [''asc'', ''desc''] (cr_order r))
       @ issues_of ''page'' (check_page (cr_page r))
       @ issues_of ''limit'' (check_limit (cr_limit r))"
    by (auto simp: SearchCollectionSchema_parse_def split: sum.splits)
  with all show ?thesis by simp
qed

lemma add_issues_fields:
  "AddToCollectionSchema_parse r = Inl issues \<Longrightarrow>
   about_fields [''scryfall_id'', ''quantity'', ''condition'', ''foil'', ''notes''] issues"
  by (auto simp: AddToCollectionSchema_parse_def about_fields_append about_fields_issues_of
        split: sum.splits)

subsection \<open>The statuses of each route\<close>

lemma status_caught_other: "http_status (caught m (OtherError e)) = 500"
  by (simp add: caught_def json_response_def)

lemma status_unauthorized: "http_status unauthorized = 401"
  by (simp add: unauthorized_def json_response_def)

lemma search_400:
  "SearchCardsSchema_parse sreq = Inl issues \<Longrightarrow>
   fst (GET_cards_search sreq a now script c d)
     = Some (json_response (Invalid ''Invalid request parameters'' issues) 400)"
  by (simp add: GET_cards_search_def caught_def)

lemma search_401:
  "SearchCardsSchema_parse sreq = Inr sv \<Longrightarrow> session_user a = None \<Longrightarrow>
   map_option http_status (fst (GET_cards_search sreq a now script c d)) = Some 401"
  by (simp add: GET_cards_search_def status_unauthorized)

lemma search_500:
  "SearchCardsSchema_parse sreq = Inr sv \<Longrightarrow> session_user a = Some uid \<Longrightarrow>
   fst (searchCards decimal (v_q sv) \<lparr>unique = v_unique sv, page = v_page sv,
          include_extras = None, include_multilingual = None\<rparr> script c) = Some (Threw e) \<Longrightarrow>
   map_option http_status (fst (GET_cards_search sreq a now script c d)) = Some 500"
  by (cases "searchCards decimal (v_q sv) \<lparr>unique = v_unique sv, page = v_page sv,
          include_extras = None, include_multilingual = None\<rparr> script c")
     (simp add: GET_cards_search_def status_caught_other)

lemma search_500_key:
  "SearchCardsSchema_parse sreq = Inr sv \<Longrightarrow> session_user a = Some uid \<Longrightarrow>
   fst (searchCards decimal (v_q sv) \<lparr>unique = v_unique sv, page = v_page sv,
          include_extras = None, include_multilingual = None\<rparr> script c) = Some (Returned sr) \<Longrightarrow>
   \<not> service_role_key d \<Longrightarrow>
   map_option http_status (fst (GET_cards_search sreq a now script c d)) = Some 500"
  by (cases "searchCards decimal (v_q sv) \<lparr>unique = v_unique sv, page = v_page sv,
          include_extras = None, include_multilingual = None\<rparr> script c")
     (simp add: GET_cards_search_def status_caught_other)

lemma search_200:
  "SearchCardsSchema_parse sreq = Inr sv \<Longrightarrow> session_user a = Some uid \<Longrightarrow>
   fst (searchCards decimal (v_q sv) \<lparr>unique = v_unique sv, page = v_page sv,
          include_extras = None, include_multilingual = None\<rparr> script c) = Some (Returned sr) \<Longrightarrow>
   service_role_key d \<Longrightarrow>
   map_option http_status (fst (GET_cards_search sreq a now script c d)) = Some 200"
  by (cases "searchCards decimal (v_q sv) \<lparr>unique = v_unique sv, page = v_page sv,
          include_extras = None, include_multilingual = None\<rparr> script c")
     (simp add: GET_cards_search_def json_response_def split: prod.splits)

lemma search_pending:
  "SearchCardsSchema_parse sreq = Inr sv \<Longrightarrow> session_user a = Some uid \<Longrightarrow>
   fst (searchCards decimal (v_q sv) \<lparr>unique = v_unique sv, page = v_page sv,
          include_extras = None, include_multilingual = None\<rparr> script c) = None \<Longrightarrow>
   fst (GET_cards_search sreq a now script c d) = None"
  by (cases "searchCards decimal (v_q sv) \<lparr>unique = v_unique sv, page = v_page sv,
          include_extras = None, include_multilingual = None\<rparr> script c")
     (simp add: GET_cards_search_def)

lemma collection_400:
  "SearchCollectionSchema_parse creq = Inl issues \<Longrightarrow>
   GET_collection_search sem creq a d
     = json_response (Invalid ''Invalid request parameters'' issues) 400"
  by (simp add: GET_collection_search_def caught_def)

lemma collection_401:
  "SearchCollectionSchema_parse creq = Inr cv \<Longrightarrow> session_user a = None \<Longrightarrow>
   http_status (GET_collection_search sem creq a d) = 401"
  by (simp add: GET_collection_search_def status_unauthorized)

lemma collection_500:
  "SearchCollectionSchema_parse creq = Inr cv \<Longrightarrow> session_user a = Some uid \<Longrightarrow>
   select_page sem d uid cv = Error msg \<Longrightarrow>
   http_status (GET_collection_search sem creq a d) = 500"
  by (simp add: GET_collection_search_def status_caught_other)

lemma collection_200:
  "SearchCollectionSchema_parse creq = Inr cv \<Longrightarrow> session_user a = Some uid \<Longrightarrow>
   select_page sem d uid cv = Data rows \<Longrightarrow>
   http_status (GET_collection_search sem creq a d) = 200"
  by (simp add: GET_collection_search_def json_response_def Let_def)

lemma add_500_body: "http_status (fst (POST_collection_add Unparsable a d)) = 500"
  by (simp add: POST_collection_add_def status_caught_other)

lemma add_400_shape:
  "fst (POST_collection_add NotAnObject a d)
     = json_response (Invalid ''Invalid request data'' [Issue [] ''invalid_type'']) 400"
  by (simp add: POST_collection_add_def caught_def)

lemma add_400:
  "AddToCollectionSchema_parse b = Inl issues \<Longrightarrow>
   fst (POST_collection_add (Object b) a d)
     = json_response (Invalid ''Invalid request data'' issues) 400"
  by (simp add: POST_collection_add_def caught_def)

lemma add_401:
  "AddToCollectionSchema_parse b = Inr av \<Longrightarrow> session_user a = None \<Longrightarrow>
   http_status (fst (POST_collection_add (Object b) a d)) = 401"
  by (simp add: POST_collection_add_def status_unauthorized)

lemma add_404:
  "AddToCollectionSchema_parse b = Inr av \<Longrightarrow> session_user a = Some uid \<Longrightarrow>
   card_exists d (a_scryfall_id av) = Error msg \<Longrightarrow>
   http_status (fst (POST_collection_add (Object b) a d)) = 404"
  by (simp add: POST_collection_add_def json_response_def)

lemma add_500_update:
  "AddToCollectionSchema_parse b = Inr av \<Longrightarrow> session_user a = Some uid \<Longrightarrow>
   card_exists d (a_scryfall_id av) = Data x \<Longrightarrow> existing_card d uid av = Some e \<Longrightarrow>
   fst (update_entry d uid av e) = Error msg \<Longrightarrow>
   http_status (fst (POST_collection_add (Object b) a d)) = 500"
  by (cases "update_entry d uid av e") (simp add: POST_collection_add_def status_caught_other)

lemma add_200_update:
  "AddToCollectionSchema_parse b = Inr av \<Longrightarrow> session_user a = Some uid \<Longrightarrow>
   card_exists d (a_scryfall_id av) = Data x \<Longrightarrow> existing_card d uid av = Some e \<Longrightarrow>
   fst (update_entry d uid av e) = Data row \<Longrightarrow>
   http_status (fst (POST_collection_add (Object b) a d)) = 200"
  by (cases "update_entry d uid av e") (simp add: POST_collection_add_def json_response_def)

lemma add_500_insert:
  "AddToCollectionSchema_parse b = Inr av \<Longrightarrow> session_user a = Some uid \<Longrightarrow>
   card_exists d (a_scryfall_id av) = Data x \<Longrightarrow> existing_card d uid av = None \<Longrightarrow>
   fst (insert_entry d uid av) = Error msg \<Longrightarrow>
   http_status (fst (POST_collection_add (Object b) a d)) = 500"
  by (cases "insert_entry d uid av") (simp add: POST_collection_add_def status_caught_other)

lemma add_200_insert:
  "AddToCollectionSchema_parse b = Inr av \<Longrightarrow> session_user a = Some uid \<Longrightarrow>
   card_exists d (a_scryfall_id av) = Data x \<Longrightarrow> existing_card d uid av = None \<Longrightarrow>
   fst (insert_entry d uid av) = Data row \<Longrightarrow>
   http_status (fst (POST_collection_add (Object b) a d)) = 200"
  by (cases "insert_entry d uid av") (simp add: POST_collection_add_def json_response_def)

text \<open>
  C7, amended. On each of the three routes, in the order of the code:
  a call that does not validate is answered 400 with the issues of the validation, at
  least one and each about a field of the request, whether it has a session or not (a
  body of the add route that is JSON and not an object is answered 400 as well);
  a call that validates and has no authenticated session is answered 401;
  after that, an error thrown in the handler is answered 500: the external search
  throws or the service key is missing (cards search), the data query fails (collection
  search), the body is not JSON, the update fails or the insert fails (collection add);
  a card lookup of the add route that gives no card, because there is none or because
  the store fails, is answered 404; a count query that fails is not an error of the
  collection search; and every other call is answered 200 (a cards search whose external
  request has not settled has no answer yet).
\<close>

theorem statuses_of_the_three_routes:
  "(SearchCardsSchema_parse sreq = Inl issues
      \<longrightarrow> issues \<noteq> [] \<and> about_fields [''q'', ''page'', ''unique''] issues
          \<and> fst (GET_cards_search sreq a now script c d)
              = Some (json_response (Invalid ''Invalid request parameters'' issues) 400))
   \<and> (SearchCardsSchema_parse sreq = Inr sv \<and> session_user a = None
      \<longrightarrow> map_option http_status (fst (GET_cards_search sreq a now script c d)) = Some 401)
   \<and> (SearchCardsSchema_parse sreq = Inr sv \<and> session_user a = Some uid
       \<and> fst (searchCards decimal (v_q sv) \<lparr>unique = v_unique sv, page = v_page sv,
                 include_extras = None, include_multilingual = None\<rparr> script c) = Some (Threw e)
      \<longrightarrow> map_option http_status (fst (GET_cards_search sreq a now script c d)) = Some 500)
   \<and> (SearchCardsSchema_parse sreq = Inr sv \<and> session_user a = Some uid
       \<and> fst (searchCards decimal (v_q sv) \<lparr>unique = v_unique sv, page = v_page sv,
                 include_extras = None, include_multilingual = None\<rparr> script c)
           = Some (Returned sr)
       \<and> \<not> service_role_key d
      \<longrightarrow> map_option http_status (fst (GET_cards_search sreq a now script c d)) = Some 500)
   \<and> (SearchCardsSchema_parse sreq = Inr sv \<and> session_user a = Some uid
       \<and> fst (searchCards decimal (v_q sv) \<lparr>unique = v_unique sv, page = v_page sv,
                 include_extras = None, include_multilingual = None\<rparr> script c)
           = Some (Returned sr)
       \<and> service_role_key d
      \<longrightarrow> map_option http_status (fst (GET_cards_search sreq a now script c d)) = Some 200)
   \<and> (SearchCardsSchema_parse sreq = Inr sv \<and> session_user a = Some uid
       \<and> fst (searchCards decimal (v_q sv) \<lparr>unique = v_unique sv, page = v_page sv,
                 include_extras = None, include_multilingual = None\<rparr> script c) = None
      \<longrightarrow> fst (GET_cards_search sreq a now script c d) = None)
   \<and> (SearchCollectionSchema_parse creq = Inl issues
      \<longrightarrow> issues \<noteq> []
          \<and> about_fields [''cmc_min'', ''cmc_max'', ''rarity'', ''sort'', ''order'', ''page'',
                ''limit''] issues
          \<and> GET_collection_search sem creq a d
              = json_response (Invalid ''Invalid request parameters'' issues) 400)
   \<and> (SearchCollectionSchema_parse creq = Inr cv \<and> session_user a = None
      \<longrightarrow> http_status (GET_collection_search sem creq a d) = 401)
   \<and> (SearchCollectionSchema_parse creq = Inr cv \<and> session_user a = Some uid
       \<and> select_page sem d uid cv = Error msg
      \<longrightarrow> http_status (GET_collection_search sem creq a d) = 500)
   \<and> (SearchCollectionSchema_parse creq = Inr cv \<and> session_user a = Some uid
       \<and> select_page sem d uid cv = Data rows
      \<longrightarrow> http_status (GET_collection_search sem creq a d) = 200)
   \<and> http_status (fst (POST_collection_add Unparsable a d)) = 500
   \<and> fst (POST_collection_add NotAnObject a d)
       = json_response (Invalid ''Invalid request data'' [Issue [] ''invalid_type'']) 400
   \<and> (AddToCollectionSchema_parse b = Inl issues
      \<longrightarrow> issues \<noteq> []
          \<and> about_fields [''scryfall_id'', ''quantity'', ''condition'', ''foil'', ''notes''] issues
          \<and> fst (POST_collection_add (Object b) a d)
              = json_response (Invalid ''Invalid request data'' issues) 400)
   \<and> (AddToCollectionSchema_parse b = Inr av \<and> session_user a = None
      \<longrightarrow> http_status (fst (POST_collection_add (Object b) a d)) = 401)
   \<and> (AddToCollectionSchema_parse b = Inr av \<and> session_user a = Some uid
       \<and> card_exists d (a_scryfall_id av) = Error msg
      \<longrightarrow> http_status (fst (POST_collection_add (Object b) a d)) = 404)
   \<and> (AddToCollectionSchema_parse b = Inr av \<and> session_user a = Some uid
       \<and> card_exists d (a_scryfall_id av) = Data x \<and> existing_card d uid av = Some ex
       \<and> fst (update_entry d uid av ex) = Error msg
      \<longrightarrow> http_status (fst (POST_collection_add (Object b) a d)) = 500)
   \<and> (AddToCollectionSchema_parse b = Inr av \<and> session_user a = Some uid
       \<and> card_exists d (a_scryfall_id av) = Data x \<and> existing_card d uid av = Some ex
       \<and> fst (update_entry d uid av ex) = Data row
      \<longrightarrow> http_status (fst (POST_collection_add (Object b) a d)) = 200)
   \<and> (AddToCollectionSchema_parse b = Inr av \<and> session_user a = Some uid
       \<and> card_exists d (a_scryfall_id av) = Data x \<and> existing_card d uid av = None
       \<and> fst (insert_entry d uid av) = Error msg
      \<longrightarrow> http_status (fst (POST_collection_add (Object b) a d)) = 500)
   \<and> (AddToCollectionSchema_parse b = Inr av \<and> session_user a = Some uid
       \<and> card_exists d (a_scryfall_id av) = Data x \<and> existing_card d uid av = None
       \<and> fst (insert_entry d uid av) = Data row
      \<longrightarrow> http_status (fst (POST_collection_add (Object b) a d)) = 200)"
  by (intro conjI impI; (elim conjE)?;
      (rule search_400 search_401 search_500 search_500_key search_200 search_pending
         collection_400 collection_401 collection_500 collection_200
         add_500_body add_400_shape add_400 add_401 add_404
         add_500_update add_200_update add_500_insert add_200_insert
         search_issues_nonempty collection_issues_nonempty add_issues_nonempty
         search_issues_fields collection_issues_fields add_issues_fields;
       assumption))

text \<open>The concrete calls of the witness: one for each case of the theorem.\<close>

lemma card_exists_signed_bolt:
  "err (SelectCardExists bolt_uuid) = None \<Longrightarrow>
   card_exists (signed_bolt\<lparr>db_error := err\<rparr>) bolt_uuid = Data bolt_uuid"
  by (simp add: card_exists_def exec_def signed_bolt_def card_columns_def bolt_def)

lemma existing_signed_bolt:
  "err SelectExisting = None \<Longrightarrow>
   existing_card (signed_bolt\<lparr>db_error := err\<rparr>) ''alice'' (added n False nt)
     = Some (entry ''r1'' ''alice'' bolt_uuid 2 False (Some ''signed''))"
  "existing_card (signed_bolt\<lparr>db_error := err\<rparr>) ''alice'' (added n True nt) = None"
  by (simp_all add: existing_card_found existing_card_absent signed_bolt_facts)

lemma parse_shiny_request:
  "SearchCollectionSchema_parse shiny_request
     = Inl [Issue [Key ''rarity'', Index 1] ''invalid_enum_value'',
            Issue [Key ''rarity'', Index 2] ''invalid_enum_value'']"
  by (simp add: SearchCollectionSchema_parse_def shiny_request_def one_per_page_def check_defs
        issues_of_def own_issues_def enumerate_eq_zip upt_rec[of 0] upt_rec[of 1] upt_rec[of 2]
        upt_rec[of 3])

theorem statuses_of_the_three_routes_witness:
  "fst (GET_cards_search no_query (User ''alice'') ''2024-06-02'' [] idle empty_cache)
       = Some (json_response
           (Invalid ''Invalid request parameters'' [Issue [Key ''q''] ''invalid_type'']) 400)
   \<and> map_option http_status
       (fst (GET_cards_search bolt_request NoUser ''2024-06-02'' [] idle empty_cache)) = Some 401
   \<and> map_option http_status
       (fst (GET_cards_search bolt_request (User ''alice'') ''2024-06-02'' [no_match] idle
          empty_cache)) = Some 500
   \<and> map_option http_status
       (fst (GET_cards_search bolt_request (User ''alice'') ''2024-06-02'' [fine] idle
          (empty_cache\<lparr>service_role_key := False\<rparr>))) = Some 500
   \<and> map_option http_status
       (fst (GET_cards_search bolt_request (User ''alice'') ''2024-06-02'' [fine] idle
          empty_cache)) = Some 200
   \<and> fst (GET_cards_search bolt_request (User ''alice'') ''2024-06-02'' [too_many] idle
          empty_cache) = None
   \<and> GET_collection_search accept_all shiny_request (User ''alice'') (three_entries healthy)
       = json_response
           (Invalid ''Invalid request parameters''
              [Issue [Key ''rarity'', Index 1] ''invalid_enum_value'',
               Issue [Key ''rarity'', Index 2] ''invalid_enum_value'']) 400
   \<and> http_status (GET_collection_search accept_all (one_per_page 1) NoUser
        (three_entries healthy)) = 401
   \<and> http_status (GET_collection_search accept_all (one_per_page 1) (User ''alice'')
        (three_entries select_down)) = 500
   \<and> http_status (GET_collection_search accept_all (one_per_page 1) (User ''alice'')
        (three_entries count_down)) = 200
   \<and> fst (POST_collection_add (Object (add_request 0 False None)) (User ''alice'') signed_bolt)
       = json_response
           (Invalid ''Invalid request data'' [Issue [Key ''quantity''] ''too_small'']) 400
   \<and> http_status (fst (POST_collection_add (Object (add_request 3 False None)) NoUser
        signed_bolt)) = 401
   \<and> http_status (fst (POST_collection_add (Object (add_request 3 False None)) (User ''alice'')
        (signed_bolt\<lparr>db_error := store_down\<rparr>))) = 404
   \<and> http_status (fst (POST_collection_add (Object (add_request 3 False None)) (User ''alice'')
        (signed_bolt\<lparr>db_error := update_down\<rparr>))) = 500
   \<and> http_status (fst (POST_collection_add (Object (add_request 3 False None)) (User ''alice'')
        signed_bolt)) = 200
   \<and> http_status (fst (POST_collection_add (Object (add_request 1 True None)) (User ''alice'')
        (signed_bolt\<lparr>db_error := insert_down\<rparr>))) = 500
   \<and> http_status (fst (POST_collection_add (Object (add_request 1 True None)) (User ''alice'')
        signed_bolt)) = 200"
proof -
  let ?sv = "\<lparr>v_q = ''bolt'', v_page = None, v_unique = Some ''cards''\<rparr>"
  let ?merge = "added 3 False None"
  let ?new = "added 1 True None"
  let ?e = "entry ''r1'' ''alice'' bolt_uuid 2 False (Some ''signed'')"
  have alice: "session_user (User ''alice'') = Some ''alice''" and nobody: "session_user NoUser = None"
    by simp_all
  have s_ok: "SearchCardsSchema_parse bolt_request = Inr ?sv"
    by (simp add: SearchCardsSchema_parse_def bolt_request_def check_q_def
          check_search_page_def check_unique_def)
  have s_bad: "SearchCardsSchema_parse no_query = Inl [Issue [Key ''q''] ''invalid_type'']"
    by (simp add: SearchCardsSchema_parse_def no_query_def check_q_def
          check_search_page_def check_unique_def issues_of_def)
  have c_ok: "SearchCollectionSchema_parse (one_per_page 1) = Inr (validated_one_per_page 1)"
    by (simp add: parse_one_per_page)
  have a_ok: "AddToCollectionSchema_parse (add_request 3 False None) = Inr ?merge"
    "AddToCollectionSchema_parse (add_request 1 True None) = Inr ?new"
    by (simp_all add: parse_add_request)
  have a_bad: "AddToCollectionSchema_parse (add_request 0 False None)
                 = Inl [Issue [Key ''quantity''] ''too_small'']"
    by (simp add: AddToCollectionSchema_parse_def add_request_def check_scryfall_id_def
          check_quantity_def check_condition_def check_foil_def check_notes_def bolt_uuid_ok
          issues_of_def)
  have thrown: "fst (searchCards decimal (v_q ?sv) \<lparr>unique = v_unique ?sv, page = v_page ?sv,
                 include_extras = None, include_multilingual = None\<rparr> [no_match] idle)
                = Some (Threw ''Scryfall API error: 404 Not Found'')"
    by (simp add: searchCards_def no_match_def idle_def client_defs status_error_def show_nat_404)
  have found: "fst (searchCards decimal (v_q ?sv) \<lparr>unique = v_unique ?sv, page = v_page ?sv,
                 include_extras = None, include_multilingual = None\<rparr> [fine] idle)
                = Some (Returned empty_result)"
    by (simp add: searchCards_def fine_def idle_def client_defs read_search_body_def)
  have waiting: "fst (searchCards decimal (v_q ?sv) \<lparr>unique = v_unique ?sv, page = v_page ?sv,
                 include_extras = None, include_multilingual = None\<rparr> [too_many] idle) = None"
    by (simp add: searchCards_def too_many_def idle_def client_defs Let_def)
  have key: "service_role_key empty_cache" "\<not> service_role_key (empty_cache\<lparr>service_role_key := False\<rparr>)"
    by (simp_all add: empty_cache_def)
  have page_down: "select_page accept_all (three_entries select_down) ''alice''
                     (validated_one_per_page 1) = Error ''timeout''"
    by (simp add: select_page_def exec_def three_entries_def select_down_def)
  have page_up: "select_page accept_all (three_entries count_down) ''alice''
                   (validated_one_per_page 1)
                 = Data [(entry ''r1'' ''alice'' ''abc123'' 1 False None, None)]"
    by (simp add: select_page_def exec_def errors_count_down no_filters_one_per_page
          matching_three_entries range_rows_def fields_one_per_page ordered_accept_all)
  have sid: "a_scryfall_id ?merge = bolt_uuid" "a_scryfall_id ?new = bolt_uuid"
    by (simp_all add: added_def)
  have no_card: "card_exists (signed_bolt\<lparr>db_error := store_down\<rparr>) (a_scryfall_id ?merge)
                   = Error ''connection refused''"
    by (simp add: sid card_exists_def exec_def store_down_def)
  have card_u: "card_exists (signed_bolt\<lparr>db_error := update_down\<rparr>) (a_scryfall_id ?merge)
                  = Data bolt_uuid"
    by (simp add: sid card_exists_signed_bolt update_down_def)
  have card_i: "card_exists (signed_bolt\<lparr>db_error := insert_down\<rparr>) (a_scryfall_id ?new)
                  = Data bolt_uuid"
    by (simp add: sid card_exists_signed_bolt insert_down_def)
  have card_m: "card_exists signed_bolt (a_scryfall_id ?merge) = Data bolt_uuid"
    "card_exists signed_bolt (a_scryfall_id ?new) = Data bolt_uuid"
    by (simp_all add: sid signed_bolt_facts)
  have ex_u: "existing_card (signed_bolt\<lparr>db_error := update_down\<rparr>) ''alice'' ?merge = Some ?e"
    by (simp add: existing_signed_bolt update_down_def)
  have ex_i: "existing_card (signed_bolt\<lparr>db_error := insert_down\<rparr>) ''alice'' ?new = None"
    by (simp add: existing_signed_bolt)
  have ex_m: "existing_card signed_bolt ''alice'' ?merge = Some ?e"
    "existing_card signed_bolt ''alice'' ?new = None"
    using existing_signed_bolt[of healthy] by (simp_all add: signed_bolt_def healthy_def)
  have upd_down: "fst (update_entry (signed_bolt\<lparr>db_error := update_down\<rparr>) ''alice'' ?merge ?e)
                    = Error ''timeout''"
    by (simp add: update_entry_def update_down_def entry_def)
  have e_in: "?e \<in> set (collection_cards signed_bolt)" "user_id ?e = ''alice''"
    by (simp_all add: signed_bolt_table entry_def)
  have upd_ok: "fst (update_entry signed_bolt ''alice'' ?merge ?e)
      = Data (join_card (signed_bolt\<lparr>collection_cards :=
                map (\<lambda>r. if r = ?e then merged ?merge ?e ?e else r) (collection_cards signed_bolt)\<rparr>)
              (merged ?merge ?e ?e))"
    by (simp add: update_entry_table[OF signed_bolt_facts(2) signed_bolt_facts(3) e_in])
  have ins_down: "fst (insert_entry (signed_bolt\<lparr>db_error := insert_down\<rparr>) ''alice'' ?new)
                    = Error ''timeout''"
    by (simp add: insert_entry_def insert_down_def)
  have ins_ok: "fst (insert_entry signed_bolt ''alice'' ?new)
      = Data (join_card signed_bolt
           \<lparr>entry_id = ''r9'', user_id = ''alice'', entry_scryfall_id = bolt_uuid,
            quantity = 1, condition = ''near_mint'', foil = True, entry_notes = None,
            added_at = ''2024-06-01'', entry_updated_at = ''2024-06-01''\<rparr>)"
    by (simp add: insert_entry_def signed_bolt_facts signed_bolt_table Let_def)
       (simp add: same_key_def entry_def added_def)
  note cards = statuses_of_the_three_routes[where sreq = bolt_request and sv = ?sv
      and now = "''2024-06-02''" and c = idle]
  note coll = statuses_of_the_three_routes[where creq = "one_per_page 1"
      and cv = "validated_one_per_page 1" and sem = accept_all]
  note merge = statuses_of_the_three_routes[where b = "add_request 3 False None"
      and av = ?merge and ex = ?e]
  note new = statuses_of_the_three_routes[where b = "add_request 1 True None" and av = ?new]
  have 1: "fst (GET_cards_search no_query (User ''alice'') ''2024-06-02'' [] idle empty_cache)
       = Some (json_response
           (Invalid ''Invalid request parameters'' [Issue [Key ''q''] ''invalid_type'']) 400)"
    using statuses_of_the_three_routes[where sreq = no_query
        and issues = "[Issue [Key ''q''] ''invalid_type'']" and a = "User ''alice''"
        and now = "''2024-06-02''" and script = "[]" and c = idle and d = empty_cache] s_bad
    by simp
  have 2: "map_option http_status
       (fst (GET_cards_search bolt_request NoUser ''2024-06-02'' [] idle empty_cache)) = Some 401"
    using cards[where a = NoUser and script = "[]" and d = empty_cache] s_ok nobody by simp
  have 3: "map_option http_status
       (fst (GET_cards_search bolt_request (User ''alice'') ''2024-06-02'' [no_match] idle
          empty_cache)) = Some 500"
    using cards[where a = "User ''alice''" and uid = "''alice''" and script = "[no_match]"
        and e = "''Scryfall API error: 404 Not Found''" and d = empty_cache] s_ok alice thrown
    by simp
  have 4: "map_option http_status
       (fst (GET_cards_search bolt_request (User ''alice'') ''2024-06-02'' [fine] idle
          (empty_cache\<lparr>service_role_key := False\<rparr>))) = Some 500"
    using cards[where a = "User ''alice''" and uid = "''alice''" and script = "[fine]"
        and sr = empty_result and d = "empty_cache\<lparr>service_role_key := False\<rparr>"]
      s_ok alice found key(2)
    by simp
  have 5: "map_option http_status
       (fst (GET_cards_search bolt_request (User ''alice'') ''2024-06-02'' [fine] idle
          empty_cache)) = Some 200"
    using cards[where a = "User ''alice''" and uid = "''alice''" and script = "[fine]"
        and sr = empty_result and d = empty_cache] s_ok alice found key(1)
    by simp
  have 17: "fst (GET_cards_search bolt_request (User ''alice'') ''2024-06-02'' [too_many] idle
          empty_cache) = None"
    using cards[where a = "User ''alice''" and uid = "''alice''" and script = "[too_many]"
        and d = empty_cache] s_ok alice waiting
    by simp
  have 6: "GET_collection_search accept_all shiny_request (User ''alice'') (three_entries healthy)
       = json_response
           (Invalid ''Invalid request parameters''
              [Issue [Key ''rarity'', Index 1] ''invalid_enum_value'',
               Issue [Key ''rarity'', Index 2] ''invalid_enum_value'']) 400"
    using statuses_of_the_three_routes[where creq = shiny_request
        and issues = "[Issue [Key ''rarity'', Index 1] ''invalid_enum_value'',
                       Issue [Key ''rarity'', Index 2] ''invalid_enum_value'']"
        and a = "User ''alice''" and sem = accept_all and d = "three_entries healthy"]
      parse_shiny_request
    by simp
  have 7: "http_status (GET_collection_search accept_all (one_per_page 1) NoUser
        (three_entries healthy)) = 401"
    using coll[where a = NoUser and d = "three_entries healthy"] c_ok nobody by simp
  have 8: "http_status (GET_collection_search accept_all (one_per_page 1) (User ''alice'')
        (three_entries select_down)) = 500"
    using coll[where a = "User ''alice''" and uid = "''alice''" and d = "three_entries select_down"
        and msg = "''timeout''"] c_ok alice page_down
    by simp
  have 9: "http_status (GET_collection_search accept_all (one_per_page 1) (User ''alice'')
        (three_entries count_down)) = 200"
    using coll[where a = "User ''alice''" and uid = "''alice''" and d = "three_entries count_down"
        and rows = "[(entry ''r1'' ''alice'' ''abc123'' 1 False None, None)]"] c_ok alice page_up
    by simp
  have 10: "fst (POST_collection_add (Object (add_request 0 False None)) (User ''alice'') signed_bolt)
       = json_response
           (Invalid ''Invalid request data'' [Issue [Key ''quantity''] ''too_small'']) 400"
    using statuses_of_the_three_routes[where b = "add_request 0 False None"
        and issues = "[Issue [Key ''quantity''] ''too_small'']" and a = "User ''alice''"
        and d = signed_bolt] a_bad
    by simp
  have 11: "http_status (fst (POST_collection_add (Object (add_request 3 False None)) NoUser
        signed_bolt)) = 401"
    using merge[where a = NoUser and d = signed_bolt] a_ok(1) nobody by simp
  have 12: "http_status (fst (POST_collection_add (Object (add_request 3 False None))
        (User ''alice'') (signed_bolt\<lparr>db_error := store_down\<rparr>))) = 404"
    using merge[where a = "User ''alice''" and uid = "''alice''"
        and d = "signed_bolt\<lparr>db_error := store_down\<rparr>" and msg = "''connection refused''"]
      a_ok(1) alice no_card
    by simp
  have 13: "http_status (fst (POST_collection_add (Object (add_request 3 False None))
        (User ''alice'') (signed_bolt\<lparr>db_error := update_down\<rparr>))) = 500"
    using merge[where a = "User ''alice''" and uid = "''alice''"
        and d = "signed_bolt\<lparr>db_error := update_down\<rparr>" and msg = "''timeout''"
        and x = bolt_uuid]
      a_ok(1) alice card_u ex_u upd_down
    by simp
  have 14: "http_status (fst (POST_collection_add (Object (add_request 3 False None))
        (User ''alice'') signed_bolt)) = 200"
    using merge[where a = "User ''alice''" and uid = "''alice''" and d = signed_bolt
        and x = bolt_uuid
        and row = "join_card (signed_bolt\<lparr>collection_cards :=
                map (\<lambda>r. if r = ?e then merged ?merge ?e ?e else r) (collection_cards signed_bolt)\<rparr>)
              (merged ?merge ?e ?e)"]
      a_ok(1) alice card_m(1) ex_m(1) upd_ok
    by simp
  have 15: "http_status (fst (POST_collection_add (Object (add_request 1 True None))
        (User ''alice'') (signed_bolt\<lparr>db_error := insert_down\<rparr>))) = 500"
    using new[where a = "User ''alice''" and uid = "''alice''"
        and d = "signed_bolt\<lparr>db_error := insert_down\<rparr>" and msg = "''timeout''"
        and x = bolt_uuid]
      a_ok(2) alice card_i ex_i ins_down
    by simp
  have 16: "http_status (fst (POST_collection_add (Object (add_request 1 True None))
        (User ''alice'') signed_bolt)) = 200"
    using new[where a = "User ''alice''" and uid = "''alice''" and d = signed_bolt
        and x = bolt_uuid
        and row = "join_card signed_bolt
           \<lparr>entry_id = ''r9'', user_id = ''alice'', entry_scryfall_id = bolt_uuid,
            quantity = 1, condition = ''near_mint'', foil = True, entry_notes = None,
            added_at = ''2024-06-01'', entry_updated_at = ''2024-06-01''\<rparr>"]
      a_ok(2) alice card_m(2) ex_m(2) ins_ok
    by simp
  from 1 2 3 4 5 6 7 8 9 10 11 12 13 14 15 16 17 show ?thesis by blast
qed

end
